theory Spec2Isabelle
  imports
    Complex_Main
    "HOL-Library.Word"
    "HOL-Library.Char_ord"
    "HOL-Library.List_Lexorder"
    "HOL-Library.AList"
    "HOL-Library.Multiset"
begin

unbundle bit_operations_syntax

section \<open>Python values\<close>

text \<open>
  The values that travel through \<^verbatim>\<open>piastrixlib.py\<close>: request parameters, the entries
  of a notification and the JSON a response decodes to. A Python \<^verbatim>\<open>str\<close> is kept as the
  list of its UTF-8 bytes: the source only joins, compares, sorts and encodes strings, and
  on UTF-8 the bytewise order is the order of the code points. A finite \<^verbatim>\<open>float\<close> is kept
  as the rational it denotes (Python compares numbers of different types by their exact
  values); \<^verbatim>\<open>nan\<close> and the infinities are left out.
\<close>

datatype pyval =
    VNone
  | VBool bool
  | VInt int
  | VFloat rat
  | VStr string
  | VList "pyval list"
  | VDict "(string \<times> pyval) list"

text \<open>
  A \<^verbatim>\<open>dict\<close> with string keys, in insertion order. Reading is \<open>map_of\<close>; the
  assignment \<^verbatim>\<open>d[k] = v\<close> is \<open>AList.update\<close> (an existing key keeps its place, a new
  one goes last); \<^verbatim>\<open>d.pop(k)\<close> removes with \<open>AList.delete\<close>.
\<close>

type_synonym pydict = "(string \<times> pyval) list"

text \<open>The exceptions the modelled code can raise, as values.\<close>

datatype error =
    KeyError string
  | TypeError
  | RequestException
  | HTTPError nat
  | JSONDecodeError
  | PiastrixClientException pyval pyval

text \<open>\<^verbatim>\<open>class PiastrixErrorCode\<close>\<close>

definition ExtraFieldsError :: int where "ExtraFieldsError = 1000"
definition IpError :: int where "IpError = 1001"
definition SignError :: int where "SignError = 1002"
definition ShopAmountError :: int where "ShopAmountError = 1003"
definition ShopCurrencyError :: int where "ShopCurrencyError = 1004"
definition StatusError :: int where "StatusError = 1005"
definition LanguageError :: int where "LanguageError = 1006"
definition AmountTypeError :: int where "AmountTypeError = 1007"

text \<open>\<^verbatim>\<open>class PiastrixTransferAmountType\<close>, \<^verbatim>\<open>class PiastrixWithdrawAmountType\<close>\<close>

definition ReceiveAmountType :: string where "ReceiveAmountType = ''receive_amount''"
definition WriteoffAmountType :: string where "WriteoffAmountType = ''writeoff_amount''"
definition PsAmountType :: string where "PsAmountType = ''ps_amount''"
definition ShopAmountType :: string where "ShopAmountType = ''shop_amount''"

text \<open>
  The \<^verbatim>\<open>PiastrixClientException(message, error_code)\<close> values the source raises, one
  per \<^verbatim>\<open>raise\<close> statement.
\<close>

definition extra_fields_exception :: error where
  "extra_fields_exception =
     PiastrixClientException
       (VStr ''Wrong key in extra_fields. Don't use the same keys as req_dict'')
       (VInt ExtraFieldsError)"

definition ip_exception :: error where
  "ip_exception =
     PiastrixClientException (VStr ''IP address is not in allowed IP addresses'')
       (VInt IpError)"

definition sign_exception :: error where
  "sign_exception = PiastrixClientException (VStr ''Wrong sign'') (VInt SignError)"

definition shop_amount_exception :: error where
  "shop_amount_exception =
     PiastrixClientException (VStr ''Wrong shop_amount'') (VInt ShopAmountError)"

definition shop_currency_exception :: error where
  "shop_currency_exception =
     PiastrixClientException (VStr ''Wrong shop_currency'') (VInt ShopCurrencyError)"

definition status_exception :: error where
  "status_exception = PiastrixClientException (VStr ''Wrong status'') (VInt StatusError)"

definition amount_type_exception :: error where
  "amount_type_exception =
     PiastrixClientException (VStr ''Wrong amount_type'') (VInt AmountTypeError)"

definition language_exception :: "string \<Rightarrow> error" where
  "language_exception lang =
     PiastrixClientException (VStr (lang @ '' is not valid language'')) (VInt LanguageError)"

subsection \<open>Equality and membership\<close>

text \<open>
  Python's \<^verbatim>\<open>==\<close> on these values: \<^verbatim>\<open>bool\<close>, \<^verbatim>\<open>int\<close> and \<^verbatim>\<open>float\<close> compare by
  numeric value (\<^verbatim>\<open>True == 1 == 1.0\<close>), lists elementwise, dicts as mappings, and values
  of unrelated types are unequal. \<^verbatim>\<open>!=\<close> is its negation, and \<^verbatim>\<open>x in xs\<close> on a list
  or tuple asks for an element equal to \<^verbatim>\<open>x\<close>.
\<close>

fun num_of :: "pyval \<Rightarrow> rat option" where
  "num_of (VBool b) = Some (if b then 1 else 0)"
| "num_of (VInt i) = Some (of_int i)"
| "num_of (VFloat q) = Some q"
| "num_of _ = None"

fun py_eq :: "pyval \<Rightarrow> pyval \<Rightarrow> bool" where
  "py_eq VNone VNone = True"
| "py_eq (VStr a) (VStr b) = (a = b)"
| "py_eq (VList xs) (VList ys) = list_all2 py_eq xs ys"
| "py_eq (VDict d) (VDict e) =
     (length d = length e \<and>
      list_all (\<lambda>(k, v). case map_of e k of None \<Rightarrow> False | Some w \<Rightarrow> py_eq v w) d)"
| "py_eq a b = (case (num_of a, num_of b) of (Some x, Some y) \<Rightarrow> x = y | _ \<Rightarrow> False)"

definition py_in :: "pyval \<Rightarrow> pyval list \<Rightarrow> bool" where
  "py_in x xs = list_ex (py_eq x) xs"

section \<open>SHA-256\<close>

text \<open>
  \<^verbatim>\<open>hashlib.sha256(b).hexdigest()\<close>, after FIPS 180-4: the message is padded with the
  byte 0x80, zero bytes and its length in bits as a 64-bit big-endian number, cut into
  blocks of sixteen 32-bit words, and each block is compressed into the eight-word state.
\<close>

type_synonym w32 = "32 word"

definition rotr :: "nat \<Rightarrow> w32 \<Rightarrow> w32" where
  "rotr n x = drop_bit n x OR push_bit (32 - n) x"

definition Ch :: "w32 \<Rightarrow> w32 \<Rightarrow> w32 \<Rightarrow> w32" where
  "Ch x y z = (x AND y) XOR (NOT x AND z)"

definition Maj :: "w32 \<Rightarrow> w32 \<Rightarrow> w32 \<Rightarrow> w32" where
  "Maj x y z = (x AND y) XOR (x AND z) XOR (y AND z)"

definition bsig0 :: "w32 \<Rightarrow> w32" where
  "bsig0 x = rotr 2 x XOR rotr 13 x XOR rotr 22 x"

definition bsig1 :: "w32 \<Rightarrow> w32" where
  "bsig1 x = rotr 6 x XOR rotr 11 x XOR rotr 25 x"

definition ssig0 :: "w32 \<Rightarrow> w32" where
  "ssig0 x = rotr 7 x XOR rotr 18 x XOR drop_bit 3 x"

definition ssig1 :: "w32 \<Rightarrow> w32" where
  "ssig1 x = rotr 17 x XOR rotr 19 x XOR drop_bit 10 x"

definition K256 :: "w32 list" where
  "K256 =
    [0x428A2F98, 0x71374491, 0xB5C0FBCF, 0xE9B5DBA5, 0x3956C25B, 0x59F111F1, 0x923F82A4,
     0xAB1C5ED5, 0xD807AA98, 0x12835B01, 0x243185BE, 0x550C7DC3, 0x72BE5D74, 0x80DEB1FE,
     0x9BDC06A7, 0xC19BF174, 0xE49B69C1, 0xEFBE4786, 0x0FC19DC6, 0x240CA1CC, 0x2DE92C6F,
     0x4A7484AA, 0x5CB0A9DC, 0x76F988DA, 0x983E5152, 0xA831C66D, 0xB00327C8, 0xBF597FC7,
     0xC6E00BF3, 0xD5A79147, 0x06CA6351, 0x14292967, 0x27B70A85, 0x2E1B2138, 0x4D2C6DFC,
     0x53380D13, 0x650A7354, 0x766A0ABB, 0x81C2C92E, 0x92722C85, 0xA2BFE8A1, 0xA81A664B,
     0xC24B8B70, 0xC76C51A3, 0xD192E819, 0xD6990624, 0xF40E3585, 0x106AA070, 0x19A4C116,
     0x1E376C08, 0x2748774C, 0x34B0BCB5, 0x391C0CB3, 0x4ED8AA4A, 0x5B9CCA4F, 0x682E6FF3,
     0x748F82EE, 0x78A5636F, 0x84C87814, 0x8CC70208, 0x90BEFFFA, 0xA4506CEB, 0xBEF9A3F7,
     0xC67178F2]"

definition H256 :: "w32 list" where
  "H256 =
    [0x6A09E667, 0xBB67AE85, 0x3C6EF372, 0xA54FF53A,
     0x510E527F, 0x9B05688C, 0x1F83D9AB, 0x5BE0CD19]"

text \<open>
  The message schedule, newest word first: from the sixteen words of a block (reversed),
  \<open>schedule 48\<close> adds the forty-eight words \<open>W\<^sub>t = \<sigma>\<^sub>1(W\<^sub>t\<^sub>-\<^sub>2) + W\<^sub>t\<^sub>-\<^sub>7 + \<sigma>\<^sub>0(W\<^sub>t\<^sub>-\<^sub>1\<^sub>5) + W\<^sub>t\<^sub>-\<^sub>1\<^sub>6\<close>.
\<close>

fun schedule :: "nat \<Rightarrow> w32 list \<Rightarrow> w32 list" where
  "schedule 0 ws = ws"
| "schedule (Suc k) ws =
     schedule k ((ssig1 (ws ! 1) + ws ! 6 + ssig0 (ws ! 14) + ws ! 15) # ws)"

fun round256 :: "w32 list \<Rightarrow> w32 \<times> w32 \<Rightarrow> w32 list" where
  "round256 [a, b, c, d, e, f, g, h] (k, w) =
     (let t1 = h + bsig1 e + Ch e f g + k + w;
          t2 = bsig0 a + Maj a b c
      in [t1 + t2, a, b, c, d + t1, e, f, g])"
| "round256 st _ = st"

definition compress :: "w32 list \<Rightarrow> w32 list \<Rightarrow> w32 list" where
  "compress hs blk =
     map2 (+) hs (foldl round256 hs (zip K256 (rev (schedule 48 (rev blk)))))"

fun be32 :: "8 word list \<Rightarrow> w32 list" where
  "be32 (a # b # c # d # rest) =
     (push_bit 24 (ucast a) OR push_bit 16 (ucast b) OR push_bit 8 (ucast c) OR ucast d)
       # be32 rest"
| "be32 _ = []"

fun chunks :: "nat \<Rightarrow> w32 list \<Rightarrow> w32 list list" where
  "chunks 0 ws = []"
| "chunks (Suc n) ws = (if ws = [] then [] else take 16 ws # chunks n (drop 16 ws))"

definition pad :: "8 word list \<Rightarrow> 8 word list" where
  "pad m =
     (let l = length m; z = (55 + 64 - l mod 64) mod 64
      in m @ [0x80] @ replicate z 0 @
         map (\<lambda>i. ucast (drop_bit (8 * i) (word_of_nat (8 * l) :: 64 word)))
           [7, 6, 5, 4, 3, 2, 1, 0])"

definition sha256 :: "8 word list \<Rightarrow> w32 list" where
  "sha256 m = (let ws = be32 (pad m) in foldl compress H256 (chunks (length ws) ws))"

definition hexdigit :: "nat \<Rightarrow> char" where
  "hexdigit n = ''0123456789abcdef'' ! (n mod 16)"

definition hex32 :: "w32 \<Rightarrow> string" where
  "hex32 w = map (\<lambda>i. hexdigit (unat (drop_bit (4 * i) w AND 15))) [7, 6, 5, 4, 3, 2, 1, 0]"

definition hexdigest :: "w32 list \<Rightarrow> string" where
  "hexdigest hs = concat (map hex32 hs)"

text \<open>\<^verbatim>\<open>s.encode('utf-8')\<close>: the bytes of the string.\<close>

definition encode_utf8 :: "string \<Rightarrow> 8 word list" where
  "encode_utf8 s = map of_char s"

section \<open>The client\<close>

text \<open>
  \<^verbatim>\<open>class PiastrixClient\<close>: the fields \<^verbatim>\<open>__init__\<close> stores. The shop identifier is any
  value; the secret key is a string (it is appended to a string).
\<close>

record client =
  shop_id :: pyval
  secret_key :: string
  timeout :: int
  piastrix_url :: string

subsection \<open>\<^verbatim>\<open>_sign\<close>\<close>

text \<open>
  \<^verbatim>\<open>[data[key] for key in keys]\<close>: the first missing key raises \<^verbatim>\<open>KeyError\<close>.
\<close>

fun lookup_all :: "pydict \<Rightarrow> string list \<Rightarrow> error + pyval list" where
  "lookup_all data [] = Inr []"
| "lookup_all data (key # keys) =
     (case map_of data key of
        None \<Rightarrow> Inl (KeyError key)
      | Some v \<Rightarrow>
          (case lookup_all data keys of Inl e \<Rightarrow> Inl e | Inr vs \<Rightarrow> Inr (v # vs)))"

text \<open>
  \<^verbatim>\<open>sep.join(items)\<close>: \<^verbatim>\<open>str.join\<close> accepts strings only and raises \<^verbatim>\<open>TypeError\<close> on
  any other item; it converts nothing.
\<close>

fun join :: "string \<Rightarrow> pyval list \<Rightarrow> error + string" where
  "join sep [] = Inr []"
| "join sep [VStr s] = Inr s"
| "join sep (VStr s # v # vs) =
     (case join sep (v # vs) of Inl e \<Rightarrow> Inl e | Inr r \<Rightarrow> Inr (s @ sep @ r))"
| "join sep _ = Inl TypeError"

text \<open>
  \<^verbatim>\<open>_sign(self, data, required_fields)\<close> (a leading underscore is not an Isabelle name).
  Its first two statements build the string \<^verbatim>\<open>signed_data\<close>; the third hashes it and
  stores the digest. The dict is changed only by that last statement, so an exception
  leaves it as it was: \<open>Inl\<close> carries the exception, \<open>Inr\<close> the dict with its
  \<^verbatim>\<open>'sign'\<close> entry set.
\<close>

definition signed_data :: "client \<Rightarrow> pydict \<Rightarrow> string list \<Rightarrow> error + string" where
  "signed_data c data required_fields =
     (case lookup_all data (sort required_fields) of
        Inl e \<Rightarrow> Inl e
      | Inr sorted_data \<Rightarrow>
          (case join '':'' sorted_data of
             Inl e \<Rightarrow> Inl e
           | Inr joined \<Rightarrow> Inr (joined @ secret_key c)))"

definition sign :: "client \<Rightarrow> pydict \<Rightarrow> string list \<Rightarrow> error + pydict" where
  "sign c data required_fields =
     (case signed_data c data required_fields of
        Inl e \<Rightarrow> Inl e
      | Inr sd \<Rightarrow>
          Inr (AList.update ''sign'' (VStr (hexdigest (sha256 (encode_utf8 sd)))) data))"

subsection \<open>\<^verbatim>\<open>_post\<close>\<close>

text \<open>
  The transport is outside the repository: \<^verbatim>\<open>requests.post\<close> either raises or
  delivers a response with a status code and a body, which \<^verbatim>\<open>response.json()\<close> decodes
  or rejects; \<^verbatim>\<open>urljoin\<close> builds the address. Both are parameters. Every call of
  \<^verbatim>\<open>requests.post\<close> is recorded in a log of (address, body), so that "no network call"
  is a statement about the log.
\<close>

record http_response =
  status_code :: nat
  json_body :: "pyval option"

record env =
  urljoin :: "string \<Rightarrow> string \<Rightarrow> string"
  requests_post :: "string \<Rightarrow> pydict \<Rightarrow> int \<Rightarrow> error + http_response"

type_synonym call_log = "(string \<times> pydict) list"

text \<open>
  \<^verbatim>\<open>raise_for_status\<close> raises for the codes 400 to 599. \<^verbatim>\<open>result['result']\<close> raises
  \<^verbatim>\<open>KeyError\<close> on a dict without the key and \<^verbatim>\<open>TypeError\<close> on a decoded value that
  is not a dict; \<^verbatim>\<open>is True\<close> holds for the boolean \<^verbatim>\<open>True\<close> alone;
  \<^verbatim>\<open>result.get('data')\<close> is \<^verbatim>\<open>None\<close> without the key.
\<close>

definition interpret_result :: "pyval \<Rightarrow> error + pyval" where
  "interpret_result result =
     (case result of
        VDict d \<Rightarrow>
          (case map_of d ''result'' of
             None \<Rightarrow> Inl (KeyError ''result'')
           | Some r \<Rightarrow>
               if r = VBool True
               then Inr (case map_of d ''data'' of None \<Rightarrow> VNone | Some v \<Rightarrow> v)
               else
                 (case map_of d ''message'' of
                    None \<Rightarrow> Inl (KeyError ''message'')
                  | Some message \<Rightarrow>
                      (case map_of d ''error_code'' of
                         None \<Rightarrow> Inl (KeyError ''error_code'')
                       | Some error_code \<Rightarrow>
                           Inl (PiastrixClientException message error_code))))
      | _ \<Rightarrow> Inl TypeError)"

definition post ::
  "env \<Rightarrow> client \<Rightarrow> string \<Rightarrow> pydict \<Rightarrow> call_log \<Rightarrow> (error + pyval) \<times> call_log"
where
  "post ev c endpoint req_dict calls =
     (let url = urljoin ev (piastrix_url c) endpoint;
          calls' = calls @ [(url, req_dict)]
      in case requests_post ev url req_dict (timeout c) of
           Inl e \<Rightarrow> (Inl e, calls')
         | Inr response \<Rightarrow>
             if 400 \<le> status_code response \<and> status_code response < 600
             then (Inl (HTTPError (status_code response)), calls')
             else
               (case json_body response of
                  None \<Rightarrow> (Inl JSONDecodeError, calls')
                | Some result \<Rightarrow> (interpret_result result, calls')))"

subsection \<open>Extra fields\<close>

text \<open>
  \<^verbatim>\<open>_check_extra_fields_keys(self, extra_fields, req_dict)\<close>: the loop over the keys of
  \<^verbatim>\<open>extra_fields\<close> raises at the first one that \<^verbatim>\<open>req_dict\<close> has.
\<close>

fun check_extra_fields_keys :: "pydict \<Rightarrow> pydict \<Rightarrow> error + unit" where
  "check_extra_fields_keys [] req_dict = Inr ()"
| "check_extra_fields_keys ((key, v) # extra_fields) req_dict =
     (if key \<in> set (map fst req_dict)
      then Inl extra_fields_exception
      else check_extra_fields_keys extra_fields req_dict)"

text \<open>\<^verbatim>\<open>req_dict.update(extra_fields)\<close>: the entries are assigned one by one, in order.\<close>

definition dict_update :: "pydict \<Rightarrow> pydict \<Rightarrow> pydict" where
  "dict_update req_dict extra_fields = fold (\<lambda>(k, v). AList.update k v) extra_fields req_dict"

text \<open>
  The block every operation with extra fields has:
  \<^verbatim>\<open>if extra_fields is not None: self._check_extra_fields_keys(extra_fields, req_dict);
  req_dict.update(extra_fields)\<close>.
\<close>

definition merge_extra_fields :: "pydict option \<Rightarrow> pydict \<Rightarrow> error + pydict" where
  "merge_extra_fields extra_fields req_dict =
     (case extra_fields of
        None \<Rightarrow> Inr req_dict
      | Some extra \<Rightarrow>
          (case check_extra_fields_keys extra req_dict of
             Inl e \<Rightarrow> Inl e
           | Inr _ \<Rightarrow> Inr (dict_update req_dict extra)))"

subsection \<open>\<^verbatim>\<open>check_callback\<close>\<close>

definition allowed_ip_address :: "string list" where
  "allowed_ip_address =
     [''87.98.145.206'', ''51.68.53.104'', ''51.68.53.105'', ''51.68.53.106'',
      ''51.68.53.107'', ''91.121.216.63'', ''37.48.108.180'', ''37.48.108.181'']"

text \<open>
  \<^verbatim>\<open>[key for key in request_data.keys() if request_data[key] not in ['', None]]\<close>.
  The keys come from the dict itself, so the lookup cannot fail.
\<close>

definition callback_required_fields :: "pydict \<Rightarrow> string list" where
  "callback_required_fields request_data =
     filter
       (\<lambda>key. case map_of request_data key of
                 None \<Rightarrow> False
               | Some v \<Rightarrow> \<not> py_in v [VStr [], VNone])
       (map fst request_data)"

text \<open>
  \<^verbatim>\<open>check_callback(self, request_data, remote_ip_address, shop_amount, shop_currency)\<close>.
  The method changes the caller's dict and may then raise, so the model returns both the
  outcome (\<open>Inr ()\<close> for the plain return) and the dict as the call leaves it.
\<close>

definition check_callback ::
  "client \<Rightarrow> pydict \<Rightarrow> string \<Rightarrow> pyval \<Rightarrow> pyval \<Rightarrow> (error + unit) \<times> pydict"
where
  "check_callback c request_data remote_ip_address shop_amount shop_currency =
     (case map_of request_data ''sign'' of
        None \<Rightarrow> (Inl (KeyError ''sign''), request_data)
      | Some sign_v \<Rightarrow>
          (let request_data1 = AList.delete ''sign'' request_data in
           if remote_ip_address \<notin> set allowed_ip_address
           then (Inl ip_exception, request_data1)
           else
             (case sign c request_data1 (callback_required_fields request_data1) of
                Inl e \<Rightarrow> (Inl e, request_data1)
              | Inr request_data2 \<Rightarrow>
                  (case map_of request_data2 ''sign'' of
                     None \<Rightarrow> (Inl (KeyError ''sign''), request_data2)
                   | Some recomputed \<Rightarrow>
                       if \<not> py_eq sign_v recomputed
                       then (Inl sign_exception, request_data2)
                       else
                         (case map_of request_data2 ''shop_amount'' of
                            None \<Rightarrow> (Inl (KeyError ''shop_amount''), request_data2)
                          | Some amount \<Rightarrow>
                              if \<not> py_eq shop_amount amount
                              then (Inl shop_amount_exception, request_data2)
                              else
                                (case map_of request_data2 ''shop_currency'' of
                                   None \<Rightarrow> (Inl (KeyError ''shop_currency''), request_data2)
                                 | Some currency \<Rightarrow>
                                     if \<not> py_eq shop_currency currency
                                     then (Inl shop_currency_exception, request_data2)
                                     else
                                       (case map_of request_data2 ''status'' of
                                          None \<Rightarrow> (Inl (KeyError ''status''), request_data2)
                                        | Some status \<Rightarrow>
                                            if \<not> py_eq status (VStr ''success'')
                                            then (Inl status_exception, request_data2)
                                            else (Inr (), request_data2))))))))"

subsection \<open>Operations\<close>

text \<open>
  Each operation builds its dict literal (in the source's order), merges the extra fields,
  signs and posts. An exception raised before \<^verbatim>\<open>_post\<close> leaves the call log as it was.
\<close>

definition bill ::
  "env \<Rightarrow> client \<Rightarrow> pyval \<Rightarrow> pyval \<Rightarrow> pyval \<Rightarrow> pyval \<Rightarrow> pydict option \<Rightarrow> call_log
     \<Rightarrow> (error + pyval) \<times> call_log"
where
  "bill ev c payer_currency shop_amount shop_currency shop_order_id extra_fields calls =
     (let required_fields =
            [''payer_currency'', ''shop_amount'', ''shop_currency'', ''shop_id'',
             ''shop_order_id''];
          req_dict =
            [(''payer_currency'', payer_currency), (''shop_amount'', shop_amount),
             (''shop_currency'', shop_currency), (''shop_id'', shop_id c),
             (''shop_order_id'', shop_order_id)]
      in case merge_extra_fields extra_fields req_dict of
           Inl e \<Rightarrow> (Inl e, calls)
         | Inr req_dict \<Rightarrow>
             (case sign c req_dict required_fields of
                Inl e \<Rightarrow> (Inl e, calls)
              | Inr req_dict \<Rightarrow> post ev c ''bill/create'' req_dict calls))"

definition transfer ::
  "env \<Rightarrow> client \<Rightarrow> pyval \<Rightarrow> pyval \<Rightarrow> pyval \<Rightarrow> pyval \<Rightarrow> pyval \<Rightarrow> pyval \<Rightarrow> pydict option
     \<Rightarrow> call_log \<Rightarrow> (error + pyval) \<times> call_log"
where
  "transfer ev c amount amount_type payee_account payee_currency shop_currency
       shop_payment_id extra_fields calls =
     (let required_fields =
            [''amount'', ''amount_type'', ''payee_account'', ''payee_currency'',
             ''shop_currency'', ''shop_id'', ''shop_payment_id''];
          req_dict =
            [(''amount'', amount), (''amount_type'', amount_type),
             (''payee_account'', payee_account), (''payee_currency'', payee_currency),
             (''shop_currency'', shop_currency), (''shop_id'', shop_id c),
             (''shop_payment_id'', shop_payment_id)]
      in case merge_extra_fields extra_fields req_dict of
           Inl e \<Rightarrow> (Inl e, calls)
         | Inr req_dict \<Rightarrow>
             if \<not> py_in amount_type [VStr ReceiveAmountType, VStr WriteoffAmountType]
             then (Inl amount_type_exception, calls)
             else
               (case sign c req_dict required_fields of
                  Inl e \<Rightarrow> (Inl e, calls)
                | Inr req_dict \<Rightarrow> post ev c ''transfer/create'' req_dict calls))"

definition withdraw_try ::
  "env \<Rightarrow> client \<Rightarrow> pyval \<Rightarrow> pyval \<Rightarrow> pyval \<Rightarrow> pyval \<Rightarrow> call_log
     \<Rightarrow> (error + pyval) \<times> call_log"
where
  "withdraw_try ev c amount amount_type payway shop_currency calls =
     (let required_fields =
            [''amount'', ''amount_type'', ''payway'', ''shop_currency'', ''shop_id''];
          req_dict =
            [(''amount'', amount), (''amount_type'', amount_type), (''payway'', payway),
             (''shop_currency'', shop_currency), (''shop_id'', shop_id c)]
      in if \<not> py_in amount_type [VStr PsAmountType, VStr ShopAmountType]
         then (Inl amount_type_exception, calls)
         else
           (case sign c req_dict required_fields of
              Inl e \<Rightarrow> (Inl e, calls)
            | Inr req_dict \<Rightarrow> post ev c ''withdraw/try'' req_dict calls))"

text \<open>
  \<^verbatim>\<open>withdraw\<close>: \<^verbatim>\<open>account_details\<close> is a value or \<^verbatim>\<open>None\<close>, stored under its key when
  it is not \<^verbatim>\<open>None\<close>, before the extra fields are merged.
\<close>

definition withdraw ::
  "env \<Rightarrow> client \<Rightarrow> pyval \<Rightarrow> pyval \<Rightarrow> pyval \<Rightarrow> pyval \<Rightarrow> pyval \<Rightarrow> pyval \<Rightarrow> pyval
     \<Rightarrow> pydict option \<Rightarrow> call_log \<Rightarrow> (error + pyval) \<times> call_log"
where
  "withdraw ev c account amount amount_type payway shop_currency shop_payment_id
       account_details extra_fields calls =
     (let required_fields =
            [''account'', ''amount'', ''amount_type'', ''payway'', ''shop_currency'',
             ''shop_id'', ''shop_payment_id''];
          req_dict =
            [(''account'', account), (''amount'', amount), (''amount_type'', amount_type),
             (''payway'', payway), (''shop_currency'', shop_currency),
             (''shop_id'', shop_id c), (''shop_payment_id'', shop_payment_id)];
          req_dict =
            (if account_details \<noteq> VNone
             then AList.update ''account_details'' account_details req_dict
             else req_dict)
      in case merge_extra_fields extra_fields req_dict of
           Inl e \<Rightarrow> (Inl e, calls)
         | Inr req_dict \<Rightarrow>
             if \<not> py_in amount_type [VStr PsAmountType, VStr ShopAmountType]
             then (Inl amount_type_exception, calls)
             else
               (case sign c req_dict required_fields of
                  Inl e \<Rightarrow> (Inl e, calls)
                | Inr req_dict \<Rightarrow> post ev c ''withdraw/create'' req_dict calls))"

text \<open>
  \<^verbatim>\<open>pay\<close> never reaches \<^verbatim>\<open>_post\<close>: it takes no transport and no call log, and returns
  the pair of the signed form and the address. \<^verbatim>\<open>lang\<close> is a string, as annotated.
\<close>

definition pay ::
  "client \<Rightarrow> pyval \<Rightarrow> pyval \<Rightarrow> pyval \<Rightarrow> pydict option \<Rightarrow> string
     \<Rightarrow> error + (pydict \<times> string)"
where
  "pay c amount currency shop_order_id extra_fields lang =
     (if lang \<notin> set [''ru'', ''en'']
      then Inl (language_exception lang)
      else
        (let required_fields = [''amount'', ''currency'', ''shop_id'', ''shop_order_id''];
             form_data =
               [(''amount'', amount), (''shop_id'', shop_id c), (''currency'', currency),
                (''shop_order_id'', shop_order_id)]
         in case merge_extra_fields extra_fields form_data of
              Inl e \<Rightarrow> Inl e
            | Inr form_data \<Rightarrow>
                (case sign c form_data required_fields of
                   Inl e \<Rightarrow> Inl e
                 | Inr form_data \<Rightarrow>
                     Inr (form_data, ''https://pay.piastrix.com/'' @ lang @ ''/pay''))))"

section \<open>Notions the statements use\<close>

text \<open>\<^verbatim>\<open>sep.join(strings)\<close> on a list of strings, where nothing can raise.\<close>

fun str_join :: "string \<Rightarrow> string list \<Rightarrow> string" where
  "str_join sep [] = []"
| "str_join sep [s] = s"
| "str_join sep (s # t # ts) = s @ sep @ str_join sep (t # ts)"

text \<open>
  The digest a call of \<^verbatim>\<open>_sign\<close> leaves in the dict: \<^verbatim>\<open>data['sign']\<close> read after
  the call, or the exception the call raised.
\<close>

definition sign_digest :: "client \<Rightarrow> pydict \<Rightarrow> string list \<Rightarrow> error + pyval" where
  "sign_digest c data required_fields =
     (case sign c data required_fields of
        Inl e \<Rightarrow> Inl e
      | Inr data' \<Rightarrow>
          (case map_of data' ''sign'' of None \<Rightarrow> Inl (KeyError ''sign'') | Some v \<Rightarrow> Inr v))"

text \<open>
  The digest \<^verbatim>\<open>check_callback\<close> recomputes: the notification without its
  \<^verbatim>\<open>'sign'\<close> entry, signed over its non-empty fields.
\<close>

definition recomputed_sign :: "client \<Rightarrow> pydict \<Rightarrow> error + pyval" where
  "recomputed_sign c request_data =
     sign_digest c (AList.delete ''sign'' request_data)
       (callback_required_fields (AList.delete ''sign'' request_data))"

text \<open>
  Whether \<^verbatim>\<open>extra_fields\<close> is given and shares a key with the dict it is merged into.
\<close>

definition collides :: "pydict option \<Rightarrow> pydict \<Rightarrow> bool" where
  "collides extra_fields req_dict =
     (case extra_fields of
        None \<Rightarrow> False
      | Some extra \<Rightarrow> list_ex (\<lambda>key. key \<in> set (map fst req_dict)) (map fst extra))"

text \<open>
  A client and two transports for the concrete cases: one that answers every request with
  a given status and body, one that is never reached.
\<close>

definition example_client :: client where
  "example_client =
     \<lparr>shop_id = VStr ''5'', secret_key = ''SecretKey01'', timeout = 10,
      piastrix_url = ''https://core.piastrix.com/''\<rparr>"

definition answering :: "nat \<Rightarrow> pyval \<Rightarrow> env" where
  "answering code body =
     \<lparr>urljoin = (\<lambda>base endpoint. base @ endpoint),
      requests_post = (\<lambda>url req_dict t. Inr \<lparr>status_code = code, json_body = Some body\<rparr>)\<rparr>"

definition unreachable :: env where
  "unreachable =
     \<lparr>urljoin = (\<lambda>base endpoint. base @ endpoint),
      requests_post = (\<lambda>url req_dict t. Inl RequestException)\<rparr>"

text \<open>The string a value is, for the values that are strings.\<close>

fun the_str :: "pyval \<Rightarrow> string" where
  "the_str (VStr s) = s"
| "the_str _ = []"

text \<open>Whether an exception is the client's own \<^verbatim>\<open>PiastrixClientException\<close>.\<close>

fun is_client_exception :: "error \<Rightarrow> bool" where
  "is_client_exception (PiastrixClientException message error_code) = True"
| "is_client_exception _ = False"

text \<open>
  A notification as the service sends it: string values, an empty and a null field, and
  the digest of \<^verbatim>\<open>'10.00:643:1001:success'\<close> followed by the secret of
  \<open>example_client\<close>. The second one reports another status, with its own digest.
\<close>

definition example_notification :: pydict where
  "example_notification =
     [(''shop_order_id'', VStr ''1001''), (''status'', VStr ''success''),
      (''sign'', VStr ''149433c1e6643e317184f8d2dc3ed41254aa92cd4f858c7b628d981bf5b9a896''),
      (''shop_amount'', VStr ''10.00''), (''description'', VStr []),
      (''shop_currency'', VStr ''643''), (''payway'', VNone)]"

definition rejected_notification :: pydict where
  "rejected_notification =
     [(''shop_order_id'', VStr ''1001''), (''status'', VStr ''rejected''),
      (''sign'', VStr ''d03dcff0827d956dba08ba793ac1a91eee3934892ea0f304a341c2428688bcdd''),
      (''shop_amount'', VStr ''10.00''), (''description'', VStr []),
      (''shop_currency'', VStr ''643''), (''payway'', VNone)]"

section \<open>Facts about the building blocks\<close>

subsection \<open>Reading the required fields and joining them\<close>

lemma lookup_all_cong:
  "(\<And>key. key \<in> set keys \<Longrightarrow> map_of data1 key = map_of data2 key) \<Longrightarrow>
     lookup_all data1 keys = lookup_all data2 keys"
  by (induction keys) (auto split: option.splits sum.splits)

lemma lookup_all_Inr_D:
  "lookup_all data keys = Inr vs \<Longrightarrow> map (map_of data) keys = map Some vs"
  by (induction keys arbitrary: vs) (auto split: option.splits sum.splits)

lemma lookup_all_Inr_I:
  "map (map_of data) keys = map Some vs \<Longrightarrow> lookup_all data keys = Inr vs"
  by (induction keys arbitrary: vs) (auto simp: Cons_eq_map_conv)

lemma join_strs: "join sep (map VStr ss) = Inr (str_join sep ss)"
  by (induction sep ss rule: str_join.induct) auto

lemma sort_mset_eq: "mset xs = mset ys \<Longrightarrow> sort xs = sort (ys :: string list)"
  by (metis sorted_list_of_multiset_mset)

lemma map_of_mset_eq:
  "distinct (map fst xs) \<Longrightarrow> mset xs = mset ys \<Longrightarrow> map_of xs = map_of ys"
  by (metis map_of_inject_set mset_eq_setD mset_map distinct_map mset_eq_imp_distinct_iff)

subsection \<open>Signing\<close>

lemma sign_digest_cong:
  assumes "\<And>key. key \<in> set required_fields \<Longrightarrow> map_of data1 key = map_of data2 key"
  shows "sign_digest c data1 required_fields = sign_digest c data2 required_fields"
proof -
  have "lookup_all data1 (sort required_fields) = lookup_all data2 (sort required_fields)"
    using assms by (intro lookup_all_cong) simp
  then show ?thesis
    by (simp add: sign_digest_def sign_def signed_data_def update_conv' split: sum.splits)
qed

text \<open>Signing string values: the digest of the joined values and the secret.\<close>

lemma sign_strs:
  assumes "map (map_of data) (sort required_fields) = map (Some \<circ> VStr) ss"
  shows "sign c data required_fields =
           Inr (AList.update ''sign''
             (VStr (hexdigest (sha256 (encode_utf8 (str_join '':'' ss @ secret_key c))))) data)"
proof -
  have "lookup_all data (sort required_fields) = Inr (map VStr ss)"
    using assms by (intro lookup_all_Inr_I) simp
  then show ?thesis
    by (simp add: sign_def signed_data_def join_strs)
qed

text \<open>Signing a dict that was just signed changes nothing, when the digest is not signed.\<close>

lemma sign_idem:
  assumes "''sign'' \<notin> set required_fields" and "sign c data required_fields = Inr data'"
  shows "sign c data' required_fields = Inr data'"
proof -
  from assms(2) obtain joined sorted_data where
    l: "lookup_all data (sort required_fields) = Inr sorted_data"
    and j: "join '':'' sorted_data = Inr joined"
    and d: "data' = AList.update ''sign''
              (VStr (hexdigest (sha256 (encode_utf8 (joined @ secret_key c))))) data"
    by (auto simp: sign_def signed_data_def split: sum.splits)
  have "lookup_all data' (sort required_fields) = lookup_all data (sort required_fields)"
    using assms(1) by (intro lookup_all_cong) (auto simp: d update_conv')
  then show ?thesis
    by (simp add: sign_def signed_data_def l j d)
qed

subsection \<open>Extra fields\<close>

lemma check_extra_fields_keys_iff:
  "check_extra_fields_keys extra_fields req_dict =
     (if set (map fst extra_fields) \<inter> set (map fst req_dict) = {} then Inr ()
      else Inl extra_fields_exception)"
proof (induction extra_fields)
  case Nil
  then show ?case by simp
next
  case (Cons p extra_fields)
  obtain key v where p: "p = (key, v)" by (cases p)
  show ?case
    unfolding p using Cons.IH
    by (cases "key \<in> set (map fst req_dict)") auto
qed

lemma map_of_fold_update:
  "map_of (fold (\<lambda>(k, v). AList.update k v) extra base) = map_of base ++ map_of (rev extra)"
  by (induction extra arbitrary: base)
    (auto simp: update_conv' map_add_def fun_eq_iff split: option.splits)

lemma map_of_rev_distinct:
  "distinct (map fst xs) \<Longrightarrow> map_of (rev xs) = map_of xs"
  by (subst map_of_inject_set) (simp_all add: rev_map [symmetric])

lemma map_of_dict_update:
  "distinct (map fst extra) \<Longrightarrow>
     map_of (dict_update base extra) = map_of base ++ map_of extra"
  by (simp add: dict_update_def map_of_fold_update map_of_rev_distinct)

lemma collides_iff:
  "collides (Some extra) req_dict \<longleftrightarrow> set (map fst extra) \<inter> set (map fst req_dict) \<noteq> {}"
  by (auto simp: collides_def list_ex_iff)

lemma merge_extra_fields_eq:
  "merge_extra_fields extra_fields req_dict =
     (if collides extra_fields req_dict then Inl extra_fields_exception
      else Inr (case extra_fields of None \<Rightarrow> req_dict | Some extra \<Rightarrow> dict_update req_dict extra))"
  by (cases extra_fields)
    (simp_all add: merge_extra_fields_def check_extra_fields_keys_iff collides_iff,
     simp add: collides_def)

lemma not_collides_D:
  "\<not> collides (Some extra) base \<Longrightarrow> key \<in> set (map fst base) \<Longrightarrow>
     key \<notin> set (map fst extra)"
  unfolding collides_iff by blast

lemma map_of_dict_update_other:
  "key \<notin> set (map fst extra) \<Longrightarrow> map_of (dict_update base extra) key = map_of base key"
  by (simp add: dict_update_def map_of_fold_update map_add_def map_of_eq_None_iff [THEN iffD2] split: option.splits)

subsection \<open>Joining strings\<close>

lemma length_str_join:
  "length (str_join sep ss) = sum_list (map length ss) + (length ss - 1) * length sep"
  by (induction sep ss rule: str_join.induct) auto

lemma str_join_inj_same_lengths:
  "list_all2 (\<lambda>s t. length s = length t) ss ts \<Longrightarrow>
     str_join sep ss = str_join sep ts \<Longrightarrow> ss = ts"
proof (induction sep ss arbitrary: ts rule: str_join.induct)
  case (1 sep)
  then show ?case by simp
next
  case (2 sep s)
  then show ?case by (auto simp: list_all2_Cons1)
next
  case (3 sep s t ss)
  from "3.prems"(1) obtain s' t' ss' where ts: "ts = s' # t' # ss'"
    and l: "length s = length s'" "length t = length t'"
      "list_all2 (\<lambda>s t. length s = length t) ss ss'"
    by (auto simp: list_all2_Cons1)
  from "3.prems"(2) have "s @ sep @ str_join sep (t # ss) = s' @ sep @ str_join sep (t' # ss')"
    by (simp add: ts)
  with l(1) have e: "s = s'" "str_join sep (t # ss) = str_join sep (t' # ss')"
    by auto
  have "list_all2 (\<lambda>s t. length s = length t) (t # ss) (t' # ss')"
    using l by simp
  from "3.IH" [OF this e(2)] e(1) show ?case
    by (simp add: ts)
qed

lemma sum_list_map_less:
  fixes f g :: "'a \<Rightarrow> nat"
  assumes "\<And>x. x \<in> set xs \<Longrightarrow> f x \<le> g x" and "k \<in> set xs" and "f k < g k"
  shows "sum_list (map f xs) < sum_list (map g xs)"
  using assms
proof (induction xs)
  case Nil
  then show ?case by simp
next
  case (Cons x xs)
  show ?case
  proof (cases "k \<in> set xs")
    case True
    then have "sum_list (map f xs) < sum_list (map g xs)"
      using Cons by simp
    moreover have "f x \<le> g x" using Cons.prems(1) by simp
    ultimately show ?thesis by simp
  next
    case False
    then have "k = x" using Cons.prems(2) by simp
    moreover have "sum_list (map f xs) \<le> sum_list (map g xs)"
      using Cons.prems(1) by (intro sum_list_mono) simp
    ultimately show ?thesis using Cons.prems(3) by simp
  qed
qed

lemma str_join_change_one:
  assumes "key \<in> set ks" and "f key \<noteq> v'"
  shows "str_join sep (map (f(key := v')) ks) \<noteq> str_join sep (map f ks)"
proof
  assume eq: "str_join sep (map (f(key := v')) ks) = str_join sep (map f ks)"
  let ?g = "f(key := v')"
  consider "length v' = length (f key)" | "length v' < length (f key)" | "length (f key) < length v'"
    by linarith
  then show False
  proof cases
    case 1
    then have "list_all2 (\<lambda>s t. length s = length t) (map ?g ks) (map f ks)"
      by (simp add: list_all2_map1 list_all2_map2 list_all2_same)
    from str_join_inj_same_lengths [OF this eq] have "map ?g ks = map f ks" .
    with assms(1) have "?g key = f key" by (metis map_eq_conv)
    with assms(2) show False by simp
  next
    case 2
    have "sum_list (map (length \<circ> ?g) ks) < sum_list (map (length \<circ> f) ks)"
      by (rule sum_list_map_less [of _ _ _ key]) (use assms(1) 2 in auto)
    then have "length (str_join sep (map ?g ks)) < length (str_join sep (map f ks))"
      by (simp add: length_str_join comp_def)
    with eq show False by simp
  next
    case 3
    have "sum_list (map (length \<circ> f) ks) < sum_list (map (length \<circ> ?g) ks)"
      by (rule sum_list_map_less [of _ _ _ key]) (use assms(1) 3 in auto)
    then have "length (str_join sep (map f ks)) < length (str_join sep (map ?g ks))"
      by (simp add: length_str_join comp_def)
    with eq show False by simp
  qed
qed

lemma join_Inr_D:
  "join sep vs = Inr j \<Longrightarrow>
     vs = map VStr (map the_str vs) \<and> j = str_join sep (map the_str vs)"
  by (induction sep vs arbitrary: j rule: join.induct) (auto split: sum.splits)

subsection \<open>The signed string\<close>

text \<open>What \<open>signed_data\<close> returns when it returns.\<close>

lemma signed_data_Inr_D:
  assumes "signed_data c data required_fields = Inr s"
  shows "\<exists>f. (\<forall>key \<in> set required_fields. map_of data key = Some (VStr (f key))) \<and>
             s = str_join '':'' (map f (sort required_fields)) @ secret_key c"
proof -
  from assms obtain vs j where l: "lookup_all data (sort required_fields) = Inr vs"
    and jn: "join '':'' vs = Inr j" and s: "s = j @ secret_key c"
    by (auto simp: signed_data_def split: sum.splits)
  define ss where "ss = map the_str vs"
  from join_Inr_D [OF jn] have ss: "vs = map VStr ss" "j = str_join '':'' ss"
    by (simp_all only: ss_def)
  from lookup_all_Inr_D [OF l] have m: "map (map_of data) (sort required_fields) = map (Some \<circ> VStr) ss"
    by (simp add: ss)
  define f where "f key = (case map_of data key of Some (VStr x) \<Rightarrow> x | _ \<Rightarrow> [])" for key
  have a: "map_of data key = Some (VStr (f key))" if "key \<in> set required_fields" for key
  proof -
    from that have "map_of data key \<in> set (map (map_of data) (sort required_fields))"
      by simp
    then have "map_of data key \<in> set (map (Some \<circ> VStr) ss)"
      by (simp only: m)
    then obtain x where "map_of data key = Some (VStr x)"
      by auto
    then show ?thesis by (simp add: f_def)
  qed
  have "map (Some \<circ> VStr) (map f (sort required_fields)) = map (map_of data) (sort required_fields)"
    using a by simp
  then have "map (Some \<circ> VStr) (map f (sort required_fields)) = map (Some \<circ> VStr) ss"
    by (simp only: m)
  moreover have "inj (Some \<circ> VStr)"
    by (simp add: inj_def)
  ultimately have "map f (sort required_fields) = ss"
    by (simp only: inj_map_eq_map)
  with a s ss show ?thesis by blast
qed

lemma signed_data_strs:
  assumes "\<And>key. key \<in> set required_fields \<Longrightarrow> map_of data key = Some (VStr (f key))"
  shows "signed_data c data required_fields
           = Inr (str_join '':'' (map f (sort required_fields)) @ secret_key c)"
proof -
  have "lookup_all data (sort required_fields) = Inr (map VStr (map f (sort required_fields)))"
    using assms by (intro lookup_all_Inr_I) simp
  then show ?thesis
    by (simp add: signed_data_def join_strs del: map_map)
qed

lemma signed_data_change_one:
  assumes "key \<in> set required_fields"
    and "signed_data c data required_fields = Inr s"
    and "map_of data key = Some (VStr v)" and "v' \<noteq> v"
  shows "\<exists>s'. signed_data c (AList.update key (VStr v') data) required_fields = Inr s' \<and> s' \<noteq> s"
proof -
  from signed_data_Inr_D [OF assms(2)] obtain f where
    f: "\<And>k. k \<in> set required_fields \<Longrightarrow> map_of data k = Some (VStr (f k))"
    and s: "s = str_join '':'' (map f (sort required_fields)) @ secret_key c"
    by blast
  from f [OF assms(1)] assms(3) have fk: "f key = v" by simp
  have "signed_data c (AList.update key (VStr v') data) required_fields
      = Inr (str_join '':'' (map (f(key := v')) (sort required_fields)) @ secret_key c)"
    by (rule signed_data_strs) (simp add: update_conv' f)
  moreover have "str_join '':'' (map (f(key := v')) (sort required_fields))
      \<noteq> str_join '':'' (map f (sort required_fields))"
    using assms(1,4) fk by (intro str_join_change_one) auto
  ultimately show ?thesis
    by (simp add: s)
qed

text \<open>
  A missing required field: the call raises \<^verbatim>\<open>KeyError\<close>, the same one whatever the
  values of the fields that are present.
\<close>

lemma lookup_all_missing:
  "k \<in> set keys \<Longrightarrow> map_of data k = None \<Longrightarrow> \<exists>k'. lookup_all data keys = Inl (KeyError k')"
  by (induction keys) (auto split: option.splits sum.splits)

lemma lookup_all_Inl_dom:
  "dom (map_of data1) = dom (map_of data2) \<Longrightarrow> lookup_all data1 keys = Inl e \<Longrightarrow>
     lookup_all data2 keys = Inl e"
proof (induction keys)
  case Nil
  then show ?case by simp
next
  case (Cons key keys)
  show ?case
  proof (cases "map_of data1 key")
    case None
    with Cons.prems(1) have "map_of data2 key = None"
      by (metis domIff)
    with None Cons.prems(2) show ?thesis by simp
  next
    case (Some v)
    with Cons.prems(1) obtain w where w: "map_of data2 key = Some w"
      by (metis domIff not_None_eq)
    from Some Cons.prems(2) have "lookup_all data1 keys = Inl e"
      by (auto split: sum.splits)
    with Cons.IH Cons.prems(1) have "lookup_all data2 keys = Inl e"
      by simp
    with w show ?thesis by simp
  qed
qed

lemma sign_digest_missing_field:
  assumes "k \<in> set required_fields" and "map_of data k = None"
    and "map_of data key \<noteq> None"
  shows "\<exists>k'. sign_digest c data required_fields = Inl (KeyError k') \<and>
              sign_digest c (AList.update key v data) required_fields = Inl (KeyError k')"
proof -
  from assms(1) have "k \<in> set (sort required_fields)"
    by simp
  from lookup_all_missing [OF this assms(2)] obtain k' where
    l: "lookup_all data (sort required_fields) = Inl (KeyError k')"
    by blast
  have "dom (map_of data) = dom (map_of (AList.update key v data))"
    using assms(3) by (auto simp: update_conv')
  from lookup_all_Inl_dom [OF this l]
  have "lookup_all (AList.update key v data) (sort required_fields) = Inl (KeyError k')" .
  with l show ?thesis
    by (simp add: sign_digest_def sign_def signed_data_def)
qed

lemma sign_digest_Inr_D:
  "sign_digest c data required_fields = Inr v \<Longrightarrow>
     sign c data required_fields = Inr (AList.update ''sign'' v data)"
  by (auto simp: sign_digest_def sign_def update_conv' split: sum.splits)

subsection \<open>\<^verbatim>\<open>check_callback\<close>\<close>

lemma check_callback_no_sign:
  "map_of request_data ''sign'' = None \<Longrightarrow>
     check_callback c request_data ip shop_amount shop_currency
       = (Inl (KeyError ''sign''), request_data)"
  by (simp add: check_callback_def)

lemma check_callback_ip:
  "map_of request_data ''sign'' = Some sent \<Longrightarrow> ip \<notin> set allowed_ip_address \<Longrightarrow>
     check_callback c request_data ip shop_amount shop_currency
       = (Inl ip_exception, AList.delete ''sign'' request_data)"
  by (simp add: check_callback_def)

text \<open>The checks that follow a completed recomputation, as one decision list.\<close>

lemma check_callback_recomputed:
  assumes "map_of request_data ''sign'' = Some sent"
    and "ip \<in> set allowed_ip_address"
    and "sign_digest c (AList.delete ''sign'' request_data)
           (callback_required_fields (AList.delete ''sign'' request_data)) = Inr recomputed"
  shows "check_callback c request_data ip shop_amount shop_currency =
     ((if \<not> py_eq sent recomputed then Inl sign_exception
       else case map_of request_data ''shop_amount'' of
         None \<Rightarrow> Inl (KeyError ''shop_amount'')
       | Some amount \<Rightarrow>
           if \<not> py_eq shop_amount amount then Inl shop_amount_exception
           else case map_of request_data ''shop_currency'' of
             None \<Rightarrow> Inl (KeyError ''shop_currency'')
           | Some currency \<Rightarrow>
               if \<not> py_eq shop_currency currency then Inl shop_currency_exception
               else case map_of request_data ''status'' of
                 None \<Rightarrow> Inl (KeyError ''status'')
               | Some status \<Rightarrow>
                   if \<not> py_eq status (VStr ''success'') then Inl status_exception
                   else Inr ()),
      AList.update ''sign'' recomputed (AList.delete ''sign'' request_data))"
  using assms(1,2) sign_digest_Inr_D [OF assms(3)]
  by (simp add: check_callback_def update_conv' delete_conv' split: option.splits)

text \<open>
  A number equals no string and is not \<^verbatim>\<open>None\<close>.
\<close>

lemma py_eq_num_str: "num_of a \<noteq> None \<Longrightarrow> \<not> py_eq a (VStr s)"
  by (cases a) auto

lemma py_eq_num_None: "num_of a \<noteq> None \<Longrightarrow> \<not> py_eq a VNone"
  by (cases a) auto

text \<open>After a completed signing every field is a string, an empty string or None.\<close>

lemma callback_value_shape:
  assumes "sign c rd (callback_required_fields rd) = Inr rd2"
    and "map_of rd2 key = Some v"
  shows "v = VNone \<or> (\<exists>s. v = VStr s)"
proof (cases "key = ''sign''")
  case True
  with assms show ?thesis
    by (auto simp: sign_def update_conv' split: sum.splits)
next
  case False
  from assms(1) obtain s where sd: "signed_data c rd (callback_required_fields rd) = Inr s"
    and rd2: "rd2 = AList.update ''sign'' (VStr (hexdigest (sha256 (encode_utf8 s)))) rd"
    by (auto simp: sign_def split: sum.splits)
  from assms(2) False have m: "map_of rd key = Some v"
    by (simp add: rd2 update_conv')
  show ?thesis
  proof (cases "py_in v [VStr [], VNone]")
    case True
    then show ?thesis
      by (cases v) (auto simp: py_in_def)
  next
    case False
    with m have "key \<in> set (callback_required_fields rd)"
      by (auto simp: callback_required_fields_def dest: map_of_SomeD intro: rev_image_eqI)
    with signed_data_Inr_D [OF sd] obtain f where "map_of rd key = Some (VStr (f key))"
      by blast
    with m show ?thesis by auto
  qed
qed

text \<open>
  Hence a call with a number as the expected amount or currency never returns normally.
\<close>

lemma numeric_expected_values_never_pass:
  "num_of shop_amount \<noteq> None \<or> num_of shop_currency \<noteq> None \<Longrightarrow>
     fst (check_callback c request_data ip shop_amount shop_currency) \<noteq> Inr ()"
proof
  assume n: "num_of shop_amount \<noteq> None \<or> num_of shop_currency \<noteq> None"
    and ok: "fst (check_callback c request_data ip shop_amount shop_currency) = Inr ()"
  let ?rd1 = "AList.delete ''sign'' request_data"
  from ok obtain sent rd2 amount currency where
    s: "sign c ?rd1 (callback_required_fields ?rd1) = Inr rd2"
    and a: "map_of rd2 ''shop_amount'' = Some amount" "py_eq shop_amount amount"
    and cu: "map_of rd2 ''shop_currency'' = Some currency" "py_eq shop_currency currency"
    by (auto simp: check_callback_def Let_def split: option.splits if_splits sum.splits)
  from callback_value_shape [OF s a(1)] callback_value_shape [OF s cu(1)] n a(2) cu(2)
  show False
    using py_eq_num_str py_eq_num_None by blast
qed

subsection \<open>The digest has finitely many values\<close>

lemma length_compress: "length (compress hs blk) \<le> length hs"
  by (simp add: compress_def)

lemma length_foldl_compress: "length (foldl compress hs blks) \<le> length hs"
proof (induction blks arbitrary: hs)
  case Nil
  then show ?case by simp
next
  case (Cons blk blks)
  have "length (foldl compress (compress hs blk) blks) \<le> length (compress hs blk)"
    by (rule Cons.IH)
  also have "\<dots> \<le> length hs"
    by (rule length_compress)
  finally show ?case by simp
qed

lemma length_sha256: "length (sha256 m) \<le> 8"
proof -
  have "length H256 = 8"
    by (simp add: H256_def)
  then show ?thesis
    using length_foldl_compress [of H256 "chunks (length (be32 (pad m))) (be32 (pad m))"]
    by (simp add: sha256_def Let_def)
qed

lemma finite_range_digest: "finite (range (\<lambda>s. hexdigest (sha256 (encode_utf8 s))))"
proof -
  have "finite {ws :: w32 list. set ws \<subseteq> UNIV \<and> length ws \<le> 8}"
    by (rule finite_lists_length_le) simp
  then have "finite (hexdigest ` {ws :: w32 list. set ws \<subseteq> UNIV \<and> length ws \<le> 8})"
    by (rule finite_imageI)
  moreover have "range (\<lambda>s. hexdigest (sha256 (encode_utf8 s)))
      \<subseteq> hexdigest ` {ws :: w32 list. set ws \<subseteq> UNIV \<and> length ws \<le> 8}"
    using length_sha256 by auto
  ultimately show ?thesis
    by (rule rev_finite_subset)
qed

text \<open>
  So two strings of the letter \<^verbatim>\<open>a\<close> of different lengths have the same digest.
\<close>

lemma digest_collision_on_strs:
  "\<exists>n m. n \<noteq> m \<and>
     hexdigest (sha256 (encode_utf8 (replicate n (CHR ''a''))))
       = hexdigest (sha256 (encode_utf8 (replicate m (CHR ''a''))))"
proof -
  let ?f = "\<lambda>n. hexdigest (sha256 (encode_utf8 (replicate n (CHR ''a''))))"
  have "range ?f \<subseteq> range (\<lambda>s. hexdigest (sha256 (encode_utf8 s)))"
    by auto
  then have "finite (range ?f)"
    using finite_range_digest by (rule finite_subset)
  then have "\<not> inj ?f"
    using finite_imageD infinite_UNIV_nat by blast
  then show ?thesis
    by (auto simp: inj_def)
qed

section \<open>Test vectors\<close>

text \<open>
  The digest of \<^verbatim>\<open>"abc"\<close> as FIPS 180-4 gives it, and the digests of the signed
  strings of the concrete cases below, each computed by rewriting with the definitions.
\<close>

lemma sha256_abc:
  "hexdigest (sha256 (encode_utf8 ''abc'')) =
     ''ba7816bf8f01cfea414140de5dae2223b00361a396177a9cb410ff61f20015ad''"
  by code_simp

lemma digest_success:
  "hexdigest (sha256 (encode_utf8 ''10.00:643:1001:successSecretKey01'')) =
     ''149433c1e6643e317184f8d2dc3ed41254aa92cd4f858c7b628d981bf5b9a896''"
  by code_simp

lemma digest_rejected:
  "hexdigest (sha256 (encode_utf8 ''10.00:643:1001:rejectedSecretKey01'')) =
     ''d03dcff0827d956dba08ba793ac1a91eee3934892ea0f304a341c2428688bcdd''"
  by code_simp

lemma digest_1_23:
  "hexdigest (sha256 (encode_utf8 ''1:23SecretKey01'')) =
     ''696d9c7329c92088030cfddb763accd88d0173864ebfcc1bb24e7b46e5ba6006''"
  by code_simp

lemma digest_12_3:
  "hexdigest (sha256 (encode_utf8 ''12:3SecretKey01'')) =
     ''6a715295e306660b00e4a1da2f6d427b47cb4417820d2c2e821b559af4b4d486''"
  by code_simp

text \<open>The recomputation on the two example notifications.\<close>

lemma example_notification_digest:
  "sign_digest example_client (AList.delete ''sign'' example_notification)
       (callback_required_fields (AList.delete ''sign'' example_notification))
     = Inr (VStr ''149433c1e6643e317184f8d2dc3ed41254aa92cd4f858c7b628d981bf5b9a896'')"
  by (simp add: sign_digest_def sign_def signed_data_def callback_required_fields_def
      example_notification_def example_client_def py_in_def digest_success)

lemma rejected_notification_digest:
  "sign_digest example_client (AList.delete ''sign'' rejected_notification)
       (callback_required_fields (AList.delete ''sign'' rejected_notification))
     = Inr (VStr ''d03dcff0827d956dba08ba793ac1a91eee3934892ea0f304a341c2428688bcdd'')"
  by (simp add: sign_digest_def sign_def signed_data_def callback_required_fields_def
      rejected_notification_def example_client_def py_in_def digest_rejected)

lemma example_recomputed:
  "recomputed_sign example_client example_notification
     = Inr (VStr ''149433c1e6643e317184f8d2dc3ed41254aa92cd4f858c7b628d981bf5b9a896'')"
  by (simp add: recomputed_sign_def example_notification_digest)

lemma rejected_recomputed:
  "recomputed_sign example_client rejected_notification
     = Inr (VStr ''d03dcff0827d956dba08ba793ac1a91eee3934892ea0f304a341c2428688bcdd'')"
  by (simp add: recomputed_sign_def rejected_notification_digest)

lemma tampered_recomputed:
  "recomputed_sign example_client (AList.update ''sign'' (VStr ''00'') example_notification)
     = Inr (VStr ''149433c1e6643e317184f8d2dc3ed41254aa92cd4f858c7b628d981bf5b9a896'')"
  using example_recomputed by (simp add: recomputed_sign_def delete_update_same)

lemma changed_status_recomputed:
  "recomputed_sign example_client
       (AList.update ''status'' (VStr ''rejected'') example_notification)
     = Inr (VStr ''d03dcff0827d956dba08ba793ac1a91eee3934892ea0f304a341c2428688bcdd'')"
proof -
  have "AList.delete ''sign''
          (AList.update ''status'' (VStr ''rejected'') example_notification)
      = AList.delete ''sign'' rejected_notification"
    by (simp add: example_notification_def rejected_notification_def)
  then show ?thesis
    using rejected_recomputed by (simp add: recomputed_sign_def)
qed

section \<open>The claims\<close>

text \<open>
  C1. The claim: \<^verbatim>\<open>_sign\<close> stores the digest of the required values, each coerced to
  its string form, for values of any scalar type. The code passes the values to
  \<^verbatim>\<open>str.join\<close> as they are, and \<^verbatim>\<open>str.join\<close> raises \<^verbatim>\<open>TypeError\<close> on a value that
  is not a string: signing \<^verbatim>\<open>{'a': 1}\<close> raises, and so does \<^verbatim>\<open>bill\<close> called with the
  numbers its signature documents, before anything is sent.
\<close>

theorem sign_raises_TypeError_on_numbers:
  "sign c [(''a'', VInt 1)] [''a''] = Inl TypeError \<and>
   bill ev c (VInt 643) (VFloat 1) (VInt 643) (VStr ''order-1'') None calls
     = (Inl TypeError, calls)"
  by (simp add: sign_def signed_data_def bill_def merge_extra_fields_def)

text \<open>
  C2. The claim: from a passing call, changing one of the address, the signature, the
  amount, the currency or the status alone gives the failure of that item. The signature
  is checked before the fields it signs, so changing the status of the notification alone
  is reported as \<^verbatim>\<open>SignError\<close>, not \<^verbatim>\<open>StatusError\<close>. As amended: for a notification
  with a \<^verbatim>\<open>'sign'\<close> entry, \<^verbatim>\<open>check_callback\<close> returns normally when the address is
  in the allow-list, the recomputed digest equals the one sent, \<^verbatim>\<open>shop_amount\<close> and
  \<^verbatim>\<open>shop_currency\<close> equal the expected values and the status is \<^verbatim>\<open>'success'\<close>; when
  one of these five conditions fails and those checked before it hold, the call raises
  the exception of that condition and no other: \<^verbatim>\<open>IpError\<close>, \<^verbatim>\<open>SignError\<close>,
  \<^verbatim>\<open>ShopAmountError\<close>, \<^verbatim>\<open>ShopCurrencyError\<close>, \<^verbatim>\<open>StatusError\<close>, in this order; and
  a notification of which a field other than \<^verbatim>\<open>'sign'\<close> was changed raises
  \<^verbatim>\<open>SignError\<close> whenever the digest sent no longer equals the recomputed one. So
  \<^verbatim>\<open>StatusError\<close> (and the amount and currency errors, for a change in the
  notification) is raised only for a notification that carries the digest of its changed
  fields. Equality is Python's \<^verbatim>\<open>==\<close>, and the digest is recomputed only when every
  non-empty value of the notification is a string.
\<close>

theorem check_callback_verdict:
  "map_of request_data ''sign'' = Some sent \<longrightarrow>
   (ip \<notin> set allowed_ip_address \<longrightarrow>
      fst (check_callback c request_data ip shop_amount shop_currency) = Inl ip_exception) \<and>
   (ip \<in> set allowed_ip_address \<and> recomputed_sign c request_data = Inr recomputed \<and>
    \<not> py_eq sent recomputed \<longrightarrow>
      fst (check_callback c request_data ip shop_amount shop_currency) = Inl sign_exception) \<and>
   (ip \<in> set allowed_ip_address \<and> recomputed_sign c request_data = Inr recomputed \<and>
    py_eq sent recomputed \<and>
    map_of request_data ''shop_amount'' = Some amount \<and> \<not> py_eq shop_amount amount \<longrightarrow>
      fst (check_callback c request_data ip shop_amount shop_currency)
        = Inl shop_amount_exception) \<and>
   (ip \<in> set allowed_ip_address \<and> recomputed_sign c request_data = Inr recomputed \<and>
    py_eq sent recomputed \<and>
    map_of request_data ''shop_amount'' = Some amount \<and> py_eq shop_amount amount \<and>
    map_of request_data ''shop_currency'' = Some currency \<and>
    \<not> py_eq shop_currency currency \<longrightarrow>
      fst (check_callback c request_data ip shop_amount shop_currency)
        = Inl shop_currency_exception) \<and>
   (ip \<in> set allowed_ip_address \<and> recomputed_sign c request_data = Inr recomputed \<and>
    py_eq sent recomputed \<and>
    map_of request_data ''shop_amount'' = Some amount \<and> py_eq shop_amount amount \<and>
    map_of request_data ''shop_currency'' = Some currency \<and> py_eq shop_currency currency \<and>
    map_of request_data ''status'' = Some status \<and> \<not> py_eq status (VStr ''success'') \<longrightarrow>
      fst (check_callback c request_data ip shop_amount shop_currency)
        = Inl status_exception) \<and>
   (ip \<in> set allowed_ip_address \<and> recomputed_sign c request_data = Inr recomputed \<and>
    py_eq sent recomputed \<and>
    map_of request_data ''shop_amount'' = Some amount \<and> py_eq shop_amount amount \<and>
    map_of request_data ''shop_currency'' = Some currency \<and> py_eq shop_currency currency \<and>
    map_of request_data ''status'' = Some status \<and> py_eq status (VStr ''success'') \<longrightarrow>
      fst (check_callback c request_data ip shop_amount shop_currency) = Inr ()) \<and>
   (key \<noteq> ''sign'' \<and> ip \<in> set allowed_ip_address \<and>
    recomputed_sign c (AList.update key v request_data) = Inr recomputed' \<and>
    \<not> py_eq sent recomputed' \<longrightarrow>
      fst (check_callback c (AList.update key v request_data) ip shop_amount shop_currency)
        = Inl sign_exception)"
  (is "_ \<longrightarrow> ?verdict")
proof (intro impI)
  assume s: "map_of request_data ''sign'' = Some sent"
  have r: "fst (check_callback c request_data ip shop_amount shop_currency) =
      (if \<not> py_eq sent recomputed then Inl sign_exception
       else case map_of request_data ''shop_amount'' of
         None \<Rightarrow> Inl (KeyError ''shop_amount'')
       | Some amount \<Rightarrow>
           if \<not> py_eq shop_amount amount then Inl shop_amount_exception
           else case map_of request_data ''shop_currency'' of
             None \<Rightarrow> Inl (KeyError ''shop_currency'')
           | Some currency \<Rightarrow>
               if \<not> py_eq shop_currency currency then Inl shop_currency_exception
               else case map_of request_data ''status'' of
                 None \<Rightarrow> Inl (KeyError ''status'')
               | Some status \<Rightarrow>
                   if \<not> py_eq status (VStr ''success'') then Inl status_exception
                   else Inr ())"
    if "ip \<in> set allowed_ip_address" "recomputed_sign c request_data = Inr recomputed"
    using check_callback_recomputed [OF s that(1), of c recomputed shop_amount shop_currency]
      that(2)
    by (simp add: recomputed_sign_def)
  have i: "fst (check_callback c request_data ip shop_amount shop_currency) = Inl ip_exception"
    if "ip \<notin> set allowed_ip_address"
    using that by (simp add: check_callback_ip [OF s])
  have u: "fst (check_callback c (AList.update key v request_data) ip shop_amount
             shop_currency) = Inl sign_exception"
    if "key \<noteq> ''sign''" "ip \<in> set allowed_ip_address"
      "recomputed_sign c (AList.update key v request_data) = Inr recomputed'"
      "\<not> py_eq sent recomputed'"
  proof -
    from s that(1) have "map_of (AList.update key v request_data) ''sign'' = Some sent"
      by (simp add: update_conv')
    from check_callback_recomputed [OF this that(2), of c recomputed' shop_amount
        shop_currency] that(3,4)
    show ?thesis
      by (simp add: recomputed_sign_def)
  qed
  show ?verdict
    by (intro conjI impI; (elim conjE)?) (simp_all add: r i u)
qed

theorem check_callback_verdict_witness:
  "fst (check_callback example_client example_notification ''10.0.0.1''
          (VStr ''10.00'') (VStr ''643'')) = Inl ip_exception \<and>
   fst (check_callback example_client
          (AList.update ''sign'' (VStr ''00'') example_notification) ''87.98.145.206''
          (VStr ''10.00'') (VStr ''643'')) = Inl sign_exception \<and>
   fst (check_callback example_client example_notification ''87.98.145.206''
          (VStr ''11.00'') (VStr ''643'')) = Inl shop_amount_exception \<and>
   fst (check_callback example_client example_notification ''87.98.145.206''
          (VStr ''10.00'') (VStr ''978'')) = Inl shop_currency_exception \<and>
   fst (check_callback example_client rejected_notification ''87.98.145.206''
          (VStr ''10.00'') (VStr ''643'')) = Inl status_exception \<and>
   fst (check_callback example_client example_notification ''87.98.145.206''
          (VStr ''10.00'') (VStr ''643'')) = Inr () \<and>
   fst (check_callback example_client
          (AList.update ''status'' (VStr ''rejected'') example_notification)
          ''87.98.145.206'' (VStr ''10.00'') (VStr ''643'')) = Inl sign_exception"
proof -
  let ?D = "VStr ''149433c1e6643e317184f8d2dc3ed41254aa92cd4f858c7b628d981bf5b9a896''"
  let ?R = "VStr ''d03dcff0827d956dba08ba793ac1a91eee3934892ea0f304a341c2428688bcdd''"
  let ?T = "AList.update ''sign'' (VStr ''00'') example_notification"
  have out: "''10.0.0.1'' \<notin> set allowed_ip_address"
    and inn: "''87.98.145.206'' \<in> set allowed_ip_address"
    by (simp_all add: allowed_ip_address_def)
  have n: "map_of example_notification ''sign'' = Some ?D"
    "map_of example_notification ''shop_amount'' = Some (VStr ''10.00'')"
    "map_of example_notification ''shop_currency'' = Some (VStr ''643'')"
    "map_of example_notification ''status'' = Some (VStr ''success'')"
    by (simp_all add: example_notification_def)
  have t: "map_of ?T ''sign'' = Some (VStr ''00'')"
    by (simp add: update_conv')
  have r: "map_of rejected_notification ''sign'' = Some ?R"
    "map_of rejected_notification ''shop_amount'' = Some (VStr ''10.00'')"
    "map_of rejected_notification ''shop_currency'' = Some (VStr ''643'')"
    "map_of rejected_notification ''status'' = Some (VStr ''rejected'')"
    by (simp_all add: rejected_notification_def)
  have "fst (check_callback example_client example_notification ''10.0.0.1''
          (VStr ''10.00'') (VStr ''643'')) = Inl ip_exception"
    using check_callback_verdict [where c = example_client
        and request_data = example_notification and sent = ?D and ip = "''10.0.0.1''"]
      n(1) out
    by simp
  moreover have "fst (check_callback example_client ?T ''87.98.145.206''
          (VStr ''10.00'') (VStr ''643'')) = Inl sign_exception"
    using check_callback_verdict [where c = example_client
        and request_data = ?T and sent = "VStr ''00''" and ip = "''87.98.145.206''"
        and recomputed = ?D]
      t inn tampered_recomputed
    by simp
  moreover have "fst (check_callback example_client example_notification ''87.98.145.206''
          (VStr ''11.00'') (VStr ''643'')) = Inl shop_amount_exception"
    using check_callback_verdict [where c = example_client
        and request_data = example_notification and sent = ?D and ip = "''87.98.145.206''"
        and recomputed = ?D and amount = "VStr ''10.00''" and shop_amount = "VStr ''11.00''"]
      n inn example_recomputed
    by simp
  moreover have "fst (check_callback example_client example_notification ''87.98.145.206''
          (VStr ''10.00'') (VStr ''978'')) = Inl shop_currency_exception"
    using check_callback_verdict [where c = example_client
        and request_data = example_notification and sent = ?D and ip = "''87.98.145.206''"
        and recomputed = ?D and amount = "VStr ''10.00''" and shop_amount = "VStr ''10.00''"
        and currency = "VStr ''643''" and shop_currency = "VStr ''978''"]
      n inn example_recomputed
    by simp
  moreover have "fst (check_callback example_client rejected_notification ''87.98.145.206''
          (VStr ''10.00'') (VStr ''643'')) = Inl status_exception"
    using check_callback_verdict [where c = example_client
        and request_data = rejected_notification and sent = ?R and ip = "''87.98.145.206''"
        and recomputed = ?R and amount = "VStr ''10.00''" and shop_amount = "VStr ''10.00''"
        and currency = "VStr ''643''" and shop_currency = "VStr ''643''"
        and status = "VStr ''rejected''"]
      r inn rejected_recomputed
    by simp
  moreover have "fst (check_callback example_client example_notification ''87.98.145.206''
          (VStr ''10.00'') (VStr ''643'')) = Inr ()"
    using check_callback_verdict [where c = example_client
        and request_data = example_notification and sent = ?D and ip = "''87.98.145.206''"
        and recomputed = ?D and amount = "VStr ''10.00''" and shop_amount = "VStr ''10.00''"
        and currency = "VStr ''643''" and shop_currency = "VStr ''643''"
        and status = "VStr ''success''"]
      n inn example_recomputed
    by simp
  moreover have "fst (check_callback example_client
          (AList.update ''status'' (VStr ''rejected'') example_notification)
          ''87.98.145.206'' (VStr ''10.00'') (VStr ''643'')) = Inl sign_exception"
    using check_callback_verdict [where c = example_client
        and request_data = example_notification and sent = ?D and ip = "''87.98.145.206''"
        and key = "''status''" and v = "VStr ''rejected''" and recomputed' = ?R]
      n(1) inn changed_status_recomputed
    by simp
  ultimately show ?thesis by simp
qed

text \<open>
  The claim fails at the passing notification with its status changed alone: the call
  raises \<^verbatim>\<open>SignError\<close>, not \<^verbatim>\<open>StatusError\<close>.
\<close>

theorem status_changed_alone_raises_SignError:
  "fst (check_callback example_client example_notification ''87.98.145.206''
          (VStr ''10.00'') (VStr ''643'')) = Inr () \<and>
   fst (check_callback example_client
          (AList.update ''status'' (VStr ''rejected'') example_notification)
          ''87.98.145.206'' (VStr ''10.00'') (VStr ''643'')) = Inl sign_exception \<and>
   sign_exception \<noteq> status_exception"
proof -
  let ?D = "VStr ''149433c1e6643e317184f8d2dc3ed41254aa92cd4f858c7b628d981bf5b9a896''"
  let ?N = "AList.update ''status'' (VStr ''rejected'') example_notification"
  have inn: "''87.98.145.206'' \<in> set allowed_ip_address"
    by (simp add: allowed_ip_address_def)
  have n: "map_of example_notification ''sign'' = Some ?D"
    "map_of example_notification ''shop_amount'' = Some (VStr ''10.00'')"
    "map_of example_notification ''shop_currency'' = Some (VStr ''643'')"
    "map_of example_notification ''status'' = Some (VStr ''success'')"
    by (simp_all add: example_notification_def)
  have "fst (check_callback example_client example_notification ''87.98.145.206''
          (VStr ''10.00'') (VStr ''643'')) = Inr ()"
    using check_callback_recomputed [OF n(1) inn example_notification_digest] n
    by simp
  moreover have "?N = AList.update ''sign'' ?D rejected_notification"
    by (simp add: example_notification_def rejected_notification_def)
  then have "map_of ?N ''sign'' = Some ?D"
    and "sign_digest example_client (AList.delete ''sign'' ?N)
      (callback_required_fields (AList.delete ''sign'' ?N))
    = Inr (VStr ''d03dcff0827d956dba08ba793ac1a91eee3934892ea0f304a341c2428688bcdd'')"
    using rejected_notification_digest by (simp_all add: delete_update_same update_conv')
  then have "fst (check_callback example_client ?N ''87.98.145.206''
          (VStr ''10.00'') (VStr ''643'')) = Inl sign_exception"
    using inn by (simp add: check_callback_recomputed)
  ultimately show ?thesis
    by (simp add: sign_exception_def status_exception_def SignError_def StatusError_def)
qed

text \<open>
  C3. The digest depends on the values of the required fields alone: two dicts that agree
  on every required field get the same digest (or raise the same exception); a dict with
  its entries inserted in another order gets the same digest; the order in which the
  required names are listed does not matter, since they are sorted; and signing the same
  dict a second time leaves it as the first call left it.
\<close>

theorem sign_digest_deterministic:
  "((\<forall>key \<in> set required_fields. map_of data1 key = map_of data2 key) \<longrightarrow>
      sign_digest c data1 required_fields = sign_digest c data2 required_fields) \<and>
   (distinct (map fst data1) \<and> mset data1 = mset data2 \<longrightarrow>
      sign_digest c data1 required_fields = sign_digest c data2 required_fields) \<and>
   (mset required_fields = mset required_fields' \<longrightarrow>
      sign c data required_fields = sign c data required_fields') \<and>
   (''sign'' \<notin> set required_fields \<and> sign c data required_fields = Inr data' \<longrightarrow>
      sign c data' required_fields = Inr data')"
proof (intro conjI impI)
  assume "\<forall>key \<in> set required_fields. map_of data1 key = map_of data2 key"
  then show "sign_digest c data1 required_fields = sign_digest c data2 required_fields"
    by (intro sign_digest_cong) simp
next
  assume "distinct (map fst data1) \<and> mset data1 = mset data2"
  then have "map_of data1 = map_of data2"
    by (simp add: map_of_mset_eq)
  then show "sign_digest c data1 required_fields = sign_digest c data2 required_fields"
    by (intro sign_digest_cong) simp
next
  assume "mset required_fields = mset required_fields'"
  then have "sort required_fields = sort required_fields'"
    by (rule sort_mset_eq)
  then show "sign c data required_fields = sign c data required_fields'"
    by (simp add: sign_def signed_data_def)
next
  assume "''sign'' \<notin> set required_fields \<and> sign c data required_fields = Inr data'"
  then show "sign c data' required_fields = Inr data'"
    using sign_idem by blast
qed

theorem sign_digest_deterministic_witness:
  "sign_digest example_client
      [(''a'', VStr ''1''), (''b'', VStr ''23''), (''note'', VStr ''x'')] [''b'', ''a'']
     = sign_digest example_client
         [(''note'', VStr ''y''), (''b'', VStr ''23''), (''a'', VStr ''1'')] [''b'', ''a'']
   \<and> sign_digest example_client [(''a'', VStr ''1''), (''b'', VStr ''23'')] [''b'', ''a'']
     = sign_digest example_client [(''b'', VStr ''23''), (''a'', VStr ''1'')] [''b'', ''a'']
   \<and> sign example_client [(''a'', VStr ''1''), (''b'', VStr ''23'')] [''b'', ''a'']
     = sign example_client [(''a'', VStr ''1''), (''b'', VStr ''23'')] [''a'', ''b'']
   \<and> sign example_client
         (AList.update ''sign''
            (VStr (hexdigest (sha256 (encode_utf8 (''1:23'' @ secret_key example_client)))))
            [(''a'', VStr ''1''), (''b'', VStr ''23'')])
         [''b'', ''a'']
     = Inr (AList.update ''sign''
            (VStr (hexdigest (sha256 (encode_utf8 (''1:23'' @ secret_key example_client)))))
            [(''a'', VStr ''1''), (''b'', VStr ''23'')])"
proof -
  let ?d = "[(''a'', VStr ''1''), (''b'', VStr ''23'')]"
  let ?d' = "AList.update ''sign''
      (VStr (hexdigest (sha256 (encode_utf8 (''1:23'' @ secret_key example_client))))) ?d"
  have s: "sign example_client ?d [''b'', ''a''] = Inr ?d'"
    using sign_strs [of ?d "[''b'', ''a'']" "[''1'', ''23'']" example_client] by simp
  show ?thesis
    using
      sign_digest_deterministic [of "[''b'', ''a'']"
        "[(''a'', VStr ''1''), (''b'', VStr ''23''), (''note'', VStr ''x'')]"
        "[(''note'', VStr ''y''), (''b'', VStr ''23''), (''a'', VStr ''1'')]"
        example_client "[''b'', ''a'']" ?d ?d']
      sign_digest_deterministic [of "[''b'', ''a'']" ?d
        "[(''b'', VStr ''23''), (''a'', VStr ''1'')]"
        example_client "[''a'', ''b'']" ?d ?d']
      s
    by simp
qed

text \<open>
  C4. The claim: without a \<^verbatim>\<open>'sign'\<close> key \<^verbatim>\<open>check_callback\<close> fails with a typed
  missing-signature error of the client. The code has no such error:
  \<^verbatim>\<open>request_data.pop('sign')\<close> raises the built-in \<^verbatim>\<open>KeyError\<close>. As amended: for every
  notification without a \<^verbatim>\<open>'sign'\<close> key, whatever the other arguments,
  \<^verbatim>\<open>check_callback\<close> raises \<^verbatim>\<open>KeyError('sign')\<close>, which is not a
  \<^verbatim>\<open>PiastrixClientException\<close>, before any other check.
\<close>

theorem check_callback_without_sign:
  "map_of request_data ''sign'' = None \<longrightarrow>
     fst (check_callback c request_data ip shop_amount shop_currency) = Inl (KeyError ''sign'')
     \<and> \<not> is_client_exception (KeyError ''sign'')"
  by (simp add: check_callback_no_sign)

theorem check_callback_without_sign_witness:
  "map_of [(''status'', VStr ''success''), (''shop_amount'', VStr ''10.00'')] ''sign'' = None \<and>
   fst (check_callback example_client
          [(''status'', VStr ''success''), (''shop_amount'', VStr ''10.00'')]
          ''10.0.0.1'' (VStr ''10.00'') (VStr ''643'')) = Inl (KeyError ''sign'')"
  using check_callback_without_sign
    [of "[(''status'', VStr ''success''), (''shop_amount'', VStr ''10.00'')]"
        example_client "''10.0.0.1''" "VStr ''10.00''" "VStr ''643''"]
  by simp

text \<open>
  The claim fails at the empty notification sent from an allowed address: the exception
  raised is not the client's.
\<close>

theorem missing_sign_is_not_a_client_exception:
  "\<not> (case fst (check_callback example_client [] ''87.98.145.206'' (VStr ''10.00'')
                 (VStr ''643'')) of
         Inl e \<Rightarrow> is_client_exception e
       | Inr u \<Rightarrow> False)"
  by (simp add: check_callback_def)

text \<open>
  C5. Merging extra fields raises the \<^verbatim>\<open>ExtraFieldsError\<close> exception exactly when a key
  of the extra dict is already a key of the base dict; otherwise the result is the base
  dict updated with the extra one, which as a mapping is the union of the two. Merging
  \<^verbatim>\<open>{"a": 2}\<close> into \<^verbatim>\<open>{"a": 1}\<close> raises; merging \<^verbatim>\<open>{"b": 2}\<close> into it gives
  \<^verbatim>\<open>{"a": 1, "b": 2}\<close>.
\<close>

theorem merge_extra_fields_conflict_or_union:
  "merge_extra_fields (Some extra) base =
     (if set (map fst extra) \<inter> set (map fst base) \<noteq> {} then Inl extra_fields_exception
      else Inr (dict_update base extra)) \<and>
   (distinct (map fst extra) \<longrightarrow>
      map_of (dict_update base extra) = map_of base ++ map_of extra) \<and>
   extra_fields_exception =
     PiastrixClientException
       (VStr ''Wrong key in extra_fields. Don't use the same keys as req_dict'') (VInt 1000) \<and>
   merge_extra_fields (Some [(''a'', VInt 2)]) [(''a'', VInt 1)] = Inl extra_fields_exception \<and>
   merge_extra_fields (Some [(''b'', VInt 2)]) [(''a'', VInt 1)]
     = Inr [(''a'', VInt 1), (''b'', VInt 2)]"
proof (intro conjI impI)
  show "merge_extra_fields (Some extra) base =
     (if set (map fst extra) \<inter> set (map fst base) \<noteq> {} then Inl extra_fields_exception
      else Inr (dict_update base extra))"
    by (simp add: merge_extra_fields_def check_extra_fields_keys_iff)
next
  assume "distinct (map fst extra)"
  then show "map_of (dict_update base extra) = map_of base ++ map_of extra"
    by (rule map_of_dict_update)
next
  show "extra_fields_exception =
     PiastrixClientException
       (VStr ''Wrong key in extra_fields. Don't use the same keys as req_dict'') (VInt 1000)"
    by (simp add: extra_fields_exception_def ExtraFieldsError_def)
next
  show "merge_extra_fields (Some [(''a'', VInt 2)]) [(''a'', VInt 1)]
      = Inl extra_fields_exception"
    by (simp add: merge_extra_fields_def)
next
  show "merge_extra_fields (Some [(''b'', VInt 2)]) [(''a'', VInt 1)]
     = Inr [(''a'', VInt 1), (''b'', VInt 2)]"
    by (simp add: merge_extra_fields_def dict_update_def)
qed

theorem merge_extra_fields_conflict_or_union_witness:
  "distinct (map fst [(''description'', VStr ''tea''), (''callback_url'', VStr ''u'')]) \<and>
   merge_extra_fields
       (Some [(''description'', VStr ''tea''), (''callback_url'', VStr ''u'')])
       [(''amount'', VStr ''1''), (''currency'', VStr ''643'')]
     = Inr [(''amount'', VStr ''1''), (''currency'', VStr ''643''),
            (''description'', VStr ''tea''), (''callback_url'', VStr ''u'')] \<and>
   map_of (dict_update [(''amount'', VStr ''1''), (''currency'', VStr ''643'')]
             [(''description'', VStr ''tea''), (''callback_url'', VStr ''u'')])
     = map_of [(''amount'', VStr ''1''), (''currency'', VStr ''643'')]
         ++ map_of [(''description'', VStr ''tea''), (''callback_url'', VStr ''u'')]"
  using merge_extra_fields_conflict_or_union
    [of "[(''description'', VStr ''tea''), (''callback_url'', VStr ''u'')]"
        "[(''amount'', VStr ''1''), (''currency'', VStr ''643'')]"]
  by (simp add: dict_update_def)

text \<open>
  C6. The claim: for an \<^verbatim>\<open>amount_type\<close> outside the allowed pair, \<^verbatim>\<open>transfer\<close> (and
  \<^verbatim>\<open>withdraw\<close>) fails with \<^verbatim>\<open>AmountTypeError\<close>. Both merge the extra fields before
  they look at \<^verbatim>\<open>amount_type\<close>, so a colliding extra key is reported first. As
  amended: for every such \<^verbatim>\<open>amount_type\<close> no request is sent, and \<^verbatim>\<open>transfer\<close> and
  \<^verbatim>\<open>withdraw\<close> raise \<^verbatim>\<open>AmountTypeError\<close> unless \<^verbatim>\<open>extra_fields\<close> shares a key with
  the request, in which case they raise \<^verbatim>\<open>ExtraFieldsError\<close>; \<^verbatim>\<open>withdraw_try\<close>, which
  takes no extra fields, always raises \<^verbatim>\<open>AmountTypeError\<close>.
\<close>

theorem amount_type_guard:
  "(\<not> py_in amount_type [VStr ReceiveAmountType, VStr WriteoffAmountType] \<longrightarrow>
      transfer ev c amount amount_type payee_account payee_currency shop_currency
          shop_payment_id extra_fields calls
        = (Inl (if collides extra_fields
                     [(''amount'', amount), (''amount_type'', amount_type),
                      (''payee_account'', payee_account),
                      (''payee_currency'', payee_currency),
                      (''shop_currency'', shop_currency), (''shop_id'', shop_id c),
                      (''shop_payment_id'', shop_payment_id)]
                then extra_fields_exception else amount_type_exception),
           calls)) \<and>
   (\<not> py_in amount_type [VStr PsAmountType, VStr ShopAmountType] \<longrightarrow>
      withdraw_try ev c amount amount_type payway shop_currency calls
        = (Inl amount_type_exception, calls) \<and>
      withdraw ev c account amount amount_type payway shop_currency shop_payment_id
          account_details extra_fields calls
        = (Inl (if collides extra_fields
                     (if account_details \<noteq> VNone
                      then [(''account'', account), (''amount'', amount),
                            (''amount_type'', amount_type), (''payway'', payway),
                            (''shop_currency'', shop_currency), (''shop_id'', shop_id c),
                            (''shop_payment_id'', shop_payment_id),
                            (''account_details'', account_details)]
                      else [(''account'', account), (''amount'', amount),
                            (''amount_type'', amount_type), (''payway'', payway),
                            (''shop_currency'', shop_currency), (''shop_id'', shop_id c),
                            (''shop_payment_id'', shop_payment_id)])
                then extra_fields_exception else amount_type_exception),
           calls))"
  by (simp add: transfer_def withdraw_try_def withdraw_def merge_extra_fields_eq Let_def)

theorem amount_type_guard_witness:
  "transfer unreachable example_client (VStr ''10'') (VStr ''bogus'') (VStr ''wallet'')
       (VStr ''643'') (VStr ''643'') (VStr ''p1'') None []
     = (Inl amount_type_exception, []) \<and>
   transfer unreachable example_client (VStr ''10'') (VStr ''bogus'') (VStr ''wallet'')
       (VStr ''643'') (VStr ''643'') (VStr ''p1'') (Some [(''description'', VStr ''tea'')]) []
     = (Inl amount_type_exception, []) \<and>
   withdraw_try unreachable example_client (VStr ''10'') (VInt 1) (VStr ''card'')
       (VStr ''643'') []
     = (Inl amount_type_exception, []) \<and>
   withdraw unreachable example_client (VStr ''acc'') (VStr ''10'') (VStr ''receive_amount'')
       (VStr ''card'') (VStr ''643'') (VStr ''p1'') VNone
       (Some [(''account'', VStr ''other'')]) []
     = (Inl extra_fields_exception, [])"
proof -
  have b: "\<not> py_in (VStr ''bogus'') [VStr ReceiveAmountType, VStr WriteoffAmountType]"
    "\<not> py_in (VInt 1) [VStr PsAmountType, VStr ShopAmountType]"
    "\<not> py_in (VStr ''receive_amount'') [VStr PsAmountType, VStr ShopAmountType]"
    by (simp_all add: py_in_def ReceiveAmountType_def WriteoffAmountType_def
        PsAmountType_def ShopAmountType_def)
  show ?thesis
    using
      amount_type_guard [where ev = unreachable and c = example_client
        and amount_type = "VStr ''bogus''" and extra_fields = None and calls = "[]"]
      amount_type_guard [where ev = unreachable and c = example_client
        and amount_type = "VStr ''bogus''"
        and extra_fields = "Some [(''description'', VStr ''tea'')]" and calls = "[]"]
      amount_type_guard [where ev = unreachable and c = example_client
        and amount_type = "VInt 1" and calls = "[]"]
      amount_type_guard [where ev = unreachable and c = example_client
        and amount_type = "VStr ''receive_amount''" and account_details = VNone
        and account = "VStr ''acc''"
        and extra_fields = "Some [(''account'', VStr ''other'')]" and calls = "[]"]
      b
    by (simp add: collides_def)
qed

text \<open>
  The claim fails where the extra fields collide: \<^verbatim>\<open>transfer\<close> with the amount type
  \<^verbatim>\<open>'bogus'\<close> and \<^verbatim>\<open>extra_fields={'amount': '20'}\<close> raises \<^verbatim>\<open>ExtraFieldsError\<close>, not
  \<^verbatim>\<open>AmountTypeError\<close>.
\<close>

theorem transfer_reports_extra_fields_first:
  "\<not> py_in (VStr ''bogus'') [VStr ReceiveAmountType, VStr WriteoffAmountType] \<and>
   transfer unreachable example_client (VStr ''10'') (VStr ''bogus'') (VStr ''wallet'')
       (VStr ''643'') (VStr ''643'') (VStr ''p1'') (Some [(''amount'', VStr ''20'')]) []
     = (Inl extra_fields_exception, []) \<and>
   extra_fields_exception \<noteq> amount_type_exception"
  by (simp add: transfer_def merge_extra_fields_def py_in_def ReceiveAmountType_def
      WriteoffAmountType_def extra_fields_exception_def amount_type_exception_def)

text \<open>
  C7. The claim: on a 2xx JSON response \<^verbatim>\<open>_post\<close> returns \<^verbatim>\<open>data\<close> when
  \<^verbatim>\<open>result\<close> is \<^verbatim>\<open>True\<close> and otherwise fails with the client's exception carrying
  \<^verbatim>\<open>message\<close> and \<^verbatim>\<open>error_code\<close>. The code reads the three fields by subscript, so a
  response without them raises \<^verbatim>\<open>KeyError\<close> instead. As amended: for every 2xx
  response whose body is a JSON object, one request is sent; if \<^verbatim>\<open>result\<close> is the
  boolean \<^verbatim>\<open>True\<close> the call returns \<^verbatim>\<open>data\<close>, or \<^verbatim>\<open>None\<close> when \<^verbatim>\<open>data\<close> is
  absent; if \<^verbatim>\<open>result\<close> is present and not \<^verbatim>\<open>True\<close> and the object has both
  \<^verbatim>\<open>message\<close> and \<^verbatim>\<open>error_code\<close>, it raises \<^verbatim>\<open>PiastrixClientException\<close> with
  these two. An object lacking \<^verbatim>\<open>result\<close>, or with a \<^verbatim>\<open>result\<close> that is not
  \<^verbatim>\<open>True\<close> and lacking \<^verbatim>\<open>message\<close> or \<^verbatim>\<open>error_code\<close>, raises \<^verbatim>\<open>KeyError\<close>
  for the first of these keys that is missing.
\<close>

theorem post_interprets_response:
  "requests_post ev (urljoin ev (piastrix_url c) endpoint) req_dict (timeout c)
     = Inr \<lparr>status_code = code, json_body = Some (VDict d)\<rparr> \<and> 200 \<le> code \<and> code < 300
   \<longrightarrow>
     snd (post ev c endpoint req_dict calls)
       = calls @ [(urljoin ev (piastrix_url c) endpoint, req_dict)] \<and>
     (map_of d ''result'' = Some (VBool True) \<longrightarrow>
        fst (post ev c endpoint req_dict calls)
          = Inr (case map_of d ''data'' of None \<Rightarrow> VNone | Some v \<Rightarrow> v)) \<and>
     (map_of d ''result'' = Some r \<and> r \<noteq> VBool True \<and>
      map_of d ''message'' = Some message \<and> map_of d ''error_code'' = Some error_code \<longrightarrow>
        fst (post ev c endpoint req_dict calls)
          = Inl (PiastrixClientException message error_code)) \<and>
     (map_of d ''result'' = None \<longrightarrow>
        fst (post ev c endpoint req_dict calls) = Inl (KeyError ''result'')) \<and>
     (map_of d ''result'' = Some r \<and> r \<noteq> VBool True \<and> map_of d ''message'' = None \<longrightarrow>
        fst (post ev c endpoint req_dict calls) = Inl (KeyError ''message'')) \<and>
     (map_of d ''result'' = Some r \<and> r \<noteq> VBool True \<and>
      map_of d ''message'' = Some message \<and> map_of d ''error_code'' = None \<longrightarrow>
        fst (post ev c endpoint req_dict calls) = Inl (KeyError ''error_code''))"
  by (simp add: post_def interpret_result_def Let_def)

theorem post_interprets_response_witness:
  "fst (post (answering 200
               (VDict [(''result'', VBool True), (''data'', VDict [(''id'', VStr ''x'')])]))
          example_client ''bill/create'' [(''shop_id'', VStr ''5'')] [])
     = Inr (VDict [(''id'', VStr ''x'')]) \<and>
   fst (post (answering 200 (VDict [(''result'', VBool True)]))
          example_client ''bill/create'' [(''shop_id'', VStr ''5'')] [])
     = Inr VNone \<and>
   post (answering 200
           (VDict [(''result'', VBool False), (''message'', VStr ''bad''),
                   (''error_code'', VInt 5)]))
       example_client ''bill/create'' [(''shop_id'', VStr ''5'')] []
     = (Inl (PiastrixClientException (VStr ''bad'') (VInt 5)),
        [(''https://core.piastrix.com/bill/create'', [(''shop_id'', VStr ''5'')])]) \<and>
   fst (post (answering 200 (VDict [(''message'', VStr ''bad'')]))
          example_client ''bill/create'' [(''shop_id'', VStr ''5'')] [])
     = Inl (KeyError ''result'') \<and>
   fst (post (answering 200 (VDict [(''result'', VBool False)]))
          example_client ''bill/create'' [(''shop_id'', VStr ''5'')] [])
     = Inl (KeyError ''message'') \<and>
   fst (post (answering 200 (VDict [(''result'', VInt 1), (''message'', VStr ''bad'')]))
          example_client ''bill/create'' [(''shop_id'', VStr ''5'')] [])
     = Inl (KeyError ''error_code'')"
proof -
  have a: "requests_post (answering 200 (VDict d))
        (urljoin (answering 200 (VDict d)) (piastrix_url example_client) ''bill/create'')
        [(''shop_id'', VStr ''5'')] (timeout example_client)
      = Inr \<lparr>status_code = 200, json_body = Some (VDict d)\<rparr>" for d
    by (simp add: answering_def)
  have u: "urljoin (answering 200 body) (piastrix_url example_client) ''bill/create''
      = ''https://core.piastrix.com/bill/create''" for body
    by (simp add: answering_def example_client_def)
  note p = post_interprets_response [where c = example_client and endpoint = "''bill/create''"
      and req_dict = "[(''shop_id'', VStr ''5'')]" and calls = "[]" and code = 200]
  have "fst (post (answering 200
               (VDict [(''result'', VBool True), (''data'', VDict [(''id'', VStr ''x'')])]))
          example_client ''bill/create'' [(''shop_id'', VStr ''5'')] [])
     = Inr (VDict [(''id'', VStr ''x'')])"
    using p [where ev = "answering 200
               (VDict [(''result'', VBool True), (''data'', VDict [(''id'', VStr ''x'')])])"
        and d = "[(''result'', VBool True), (''data'', VDict [(''id'', VStr ''x'')])]"] a
    by simp
  moreover have "fst (post (answering 200 (VDict [(''result'', VBool True)]))
          example_client ''bill/create'' [(''shop_id'', VStr ''5'')] [])
     = Inr VNone"
    using p [where ev = "answering 200 (VDict [(''result'', VBool True)])"
        and d = "[(''result'', VBool True)]"] a
    by simp
  moreover have "post (answering 200
           (VDict [(''result'', VBool False), (''message'', VStr ''bad''),
                   (''error_code'', VInt 5)]))
       example_client ''bill/create'' [(''shop_id'', VStr ''5'')] []
     = (Inl (PiastrixClientException (VStr ''bad'') (VInt 5)),
        [(''https://core.piastrix.com/bill/create'', [(''shop_id'', VStr ''5'')])])"
    using p [where ev = "answering 200
           (VDict [(''result'', VBool False), (''message'', VStr ''bad''),
                   (''error_code'', VInt 5)])"
        and d = "[(''result'', VBool False), (''message'', VStr ''bad''),
                   (''error_code'', VInt 5)]"
        and r = "VBool False" and message = "VStr ''bad''" and error_code = "VInt 5"] a u
    by (simp add: prod_eq_iff)
  moreover have "fst (post (answering 200 (VDict [(''message'', VStr ''bad'')]))
          example_client ''bill/create'' [(''shop_id'', VStr ''5'')] [])
     = Inl (KeyError ''result'')"
    using p [where ev = "answering 200 (VDict [(''message'', VStr ''bad'')])"
        and d = "[(''message'', VStr ''bad'')]"] a
    by simp
  moreover have "fst (post (answering 200 (VDict [(''result'', VBool False)]))
          example_client ''bill/create'' [(''shop_id'', VStr ''5'')] [])
     = Inl (KeyError ''message'')"
    using p [where ev = "answering 200 (VDict [(''result'', VBool False)])"
        and d = "[(''result'', VBool False)]" and r = "VBool False"] a
    by simp
  moreover have "fst (post (answering 200
               (VDict [(''result'', VInt 1), (''message'', VStr ''bad'')]))
          example_client ''bill/create'' [(''shop_id'', VStr ''5'')] [])
     = Inl (KeyError ''error_code'')"
    using p [where ev = "answering 200
               (VDict [(''result'', VInt 1), (''message'', VStr ''bad'')])"
        and d = "[(''result'', VInt 1), (''message'', VStr ''bad'')]" and r = "VInt 1"
        and message = "VStr ''bad''"] a
    by simp
  ultimately show ?thesis by simp
qed

text \<open>
  The claim fails at the 200 response \<^verbatim>\<open>{"result": false, "error_code": 5}\<close>: the
  exception is \<^verbatim>\<open>KeyError('message')\<close>, not the client's.
\<close>

theorem post_raises_KeyError_without_message:
  "fst (post (answering 200 (VDict [(''result'', VBool False), (''error_code'', VInt 5)]))
          example_client ''bill/create'' [(''shop_id'', VStr ''5'')] [])
     = Inl (KeyError ''message'') \<and>
   \<not> is_client_exception (KeyError ''message'')"
  by (simp add: post_def interpret_result_def answering_def Let_def)

text \<open>
  C8. The claim: \<^verbatim>\<open>pay\<close> fails with \<^verbatim>\<open>LanguageError\<close> for a language outside
  \<^verbatim>\<open>{ru, en}\<close>, and for \<^verbatim>\<open>ru\<close> and \<^verbatim>\<open>en\<close> returns the signed form and the
  address. The second half fails where the extra fields collide with the form. As
  amended: \<^verbatim>\<open>pay\<close> raises \<^verbatim>\<open>LanguageError\<close> for every language outside
  \<^verbatim>\<open>{ru, en}\<close>; for \<^verbatim>\<open>ru\<close> and \<^verbatim>\<open>en\<close>, when the amount, the currency, the shop
  identifier and the order identifier are strings and \<^verbatim>\<open>extra_fields\<close> is absent or
  shares no key with those four, it sends nothing and returns the form (the four fields
  and the extra ones) with \<^verbatim>\<open>sign\<close> set to the digest of
  \<^verbatim>\<open>amount:currency:shop_id:shop_order_id\<close> followed by the secret, together with
  \<^verbatim>\<open>https://pay.piastrix.com/{lang}/pay\<close>. When \<^verbatim>\<open>extra_fields\<close> shares a key
  with the four fields it raises \<^verbatim>\<open>ExtraFieldsError\<close>.
\<close>

theorem pay_redirect:
  "(lang \<notin> {''ru'', ''en''} \<longrightarrow>
      pay c amount currency shop_order_id extra_fields lang = Inl (language_exception lang)) \<and>
   (lang \<in> {''ru'', ''en''} \<and>
    amount = VStr a \<and> currency = VStr cu \<and> shop_id c = VStr sid \<and> shop_order_id = VStr so \<and>
    \<not> collides extra_fields
        [(''amount'', amount), (''shop_id'', shop_id c), (''currency'', currency),
         (''shop_order_id'', shop_order_id)] \<longrightarrow>
      pay c amount currency shop_order_id extra_fields lang =
        Inr (AList.update ''sign''
               (VStr (hexdigest (sha256 (encode_utf8
                  (a @ '':'' @ cu @ '':'' @ sid @ '':'' @ so @ secret_key c)))))
               (case extra_fields of
                  None \<Rightarrow>
                    [(''amount'', amount), (''shop_id'', shop_id c), (''currency'', currency),
                     (''shop_order_id'', shop_order_id)]
                | Some extra \<Rightarrow>
                    dict_update
                      [(''amount'', amount), (''shop_id'', shop_id c),
                       (''currency'', currency), (''shop_order_id'', shop_order_id)]
                      extra),
             ''https://pay.piastrix.com/'' @ lang @ ''/pay'')) \<and>
   (lang \<in> {''ru'', ''en''} \<and>
    collides extra_fields
        [(''amount'', amount), (''shop_id'', shop_id c), (''currency'', currency),
         (''shop_order_id'', shop_order_id)] \<longrightarrow>
      pay c amount currency shop_order_id extra_fields lang = Inl extra_fields_exception)"
proof (intro conjI impI; (elim conjE)?)
  assume "lang \<notin> {''ru'', ''en''}"
  then show "pay c amount currency shop_order_id extra_fields lang
      = Inl (language_exception lang)"
    by (simp add: pay_def)
next
  let ?form = "[(''amount'', amount), (''shop_id'', shop_id c), (''currency'', currency),
                (''shop_order_id'', shop_order_id)]"
  let ?merged = "case extra_fields of None \<Rightarrow> ?form | Some extra \<Rightarrow> dict_update ?form extra"
  assume lang: "lang \<in> {''ru'', ''en''}"
    and v: "amount = VStr a" "currency = VStr cu" "shop_id c = VStr sid"
      "shop_order_id = VStr so"
    and nc: "\<not> collides extra_fields ?form"
  have m: "merge_extra_fields extra_fields ?form = Inr ?merged"
    using nc by (simp add: merge_extra_fields_eq)
  have k: "map_of ?merged key = map_of ?form key" if "key \<in> set (map fst ?form)" for key
  proof (cases extra_fields)
    case None
    then show ?thesis by simp
  next
    case (Some extra)
    with nc that have "key \<notin> set (map fst extra)"
      using not_collides_D by blast
    then show ?thesis
      by (simp add: Some map_of_dict_update_other)
  qed
  have "map (map_of ?merged) (sort [''amount'', ''currency'', ''shop_id'', ''shop_order_id''])
      = map (Some \<circ> VStr) [a, cu, sid, so]"
    by (simp add: k v)
  then have "sign c ?merged [''amount'', ''currency'', ''shop_id'', ''shop_order_id'']
      = Inr (AList.update ''sign''
          (VStr (hexdigest (sha256 (encode_utf8
             (str_join '':'' [a, cu, sid, so] @ secret_key c))))) ?merged)"
    by (rule sign_strs)
  then show "pay c amount currency shop_order_id extra_fields lang =
        Inr (AList.update ''sign''
               (VStr (hexdigest (sha256 (encode_utf8
                  (a @ '':'' @ cu @ '':'' @ sid @ '':'' @ so @ secret_key c)))))
               ?merged,
             ''https://pay.piastrix.com/'' @ lang @ ''/pay'')"
    using lang m by (auto simp add: pay_def Let_def)
next
  assume "lang \<in> {''ru'', ''en''}"
    and "collides extra_fields
        [(''amount'', amount), (''shop_id'', shop_id c), (''currency'', currency),
         (''shop_order_id'', shop_order_id)]"
  then show "pay c amount currency shop_order_id extra_fields lang
      = Inl extra_fields_exception"
    by (auto simp add: pay_def Let_def merge_extra_fields_eq)
qed

theorem pay_redirect_witness:
  "pay example_client (VStr ''1.00'') (VStr ''643'') (VStr ''order-1'') None ''fr''
     = Inl (PiastrixClientException (VStr ''fr is not valid language'') (VInt 1006)) \<and>
   pay example_client (VStr ''1.00'') (VStr ''643'') (VStr ''order-1'')
       (Some [(''description'', VStr ''tea'')]) ''en''
     = Inr ([(''amount'', VStr ''1.00''), (''shop_id'', VStr ''5''), (''currency'', VStr ''643''),
             (''shop_order_id'', VStr ''order-1''), (''description'', VStr ''tea''),
             (''sign'', VStr (hexdigest (sha256 (encode_utf8
                ''1.00:643:5:order-1SecretKey01''))))],
            ''https://pay.piastrix.com/en/pay'') \<and>
   pay example_client (VStr ''1.00'') (VStr ''643'') (VStr ''order-1'')
       (Some [(''description'', VStr ''tea''), (''shop_id'', VStr ''6'')]) ''ru''
     = Inl extra_fields_exception"
proof -
  have "pay example_client (VStr ''1.00'') (VStr ''643'') (VStr ''order-1'') None ''fr''
     = Inl (language_exception ''fr'')"
    using pay_redirect [where c = example_client and lang = "''fr''"] by simp
  moreover have "pay example_client (VStr ''1.00'') (VStr ''643'') (VStr ''order-1'')
       (Some [(''description'', VStr ''tea'')]) ''en''
     = Inr ([(''amount'', VStr ''1.00''), (''shop_id'', VStr ''5''), (''currency'', VStr ''643''),
             (''shop_order_id'', VStr ''order-1''), (''description'', VStr ''tea''),
             (''sign'', VStr (hexdigest (sha256 (encode_utf8
                ''1.00:643:5:order-1SecretKey01''))))],
            ''https://pay.piastrix.com/en/pay'')"
    using pay_redirect [where c = example_client and lang = "''en''"
        and amount = "VStr ''1.00''" and a = "''1.00''"
        and currency = "VStr ''643''" and cu = "''643''" and sid = "''5''"
        and shop_order_id = "VStr ''order-1''" and so = "''order-1''"
        and extra_fields = "Some [(''description'', VStr ''tea'')]"]
    by (simp add: example_client_def collides_def dict_update_def)
  moreover have "pay example_client (VStr ''1.00'') (VStr ''643'') (VStr ''order-1'')
       (Some [(''description'', VStr ''tea''), (''shop_id'', VStr ''6'')]) ''ru''
     = Inl extra_fields_exception"
    using pay_redirect [where c = example_client and lang = "''ru''"
        and amount = "VStr ''1.00''" and currency = "VStr ''643''"
        and shop_order_id = "VStr ''order-1''"
        and extra_fields = "Some [(''description'', VStr ''tea''), (''shop_id'', VStr ''6'')]"]
    by (simp add: collides_def)
  ultimately show ?thesis
    by (simp add: language_exception_def LanguageError_def)
qed

text \<open>
  The claim fails at \<^verbatim>\<open>lang='en'\<close> with \<^verbatim>\<open>extra_fields={'amount': '2.00'}\<close>: no form
  is returned.
\<close>

theorem pay_en_with_colliding_extra_fields_raises:
  "pay example_client (VStr ''1.00'') (VStr ''643'') (VStr ''order-1'')
       (Some [(''amount'', VStr ''2.00'')]) ''en''
     = Inl extra_fields_exception"
  by (simp add: pay_def merge_extra_fields_def)

text \<open>
  C9. The claim: changing the value of any single required field changes the signature.
  It fails where no signature is computed: with another required field missing from the
  dict the call raises the same \<^verbatim>\<open>KeyError\<close> before and after the change. And where a
  signature is computed, what the code guarantees is one step earlier than the digest,
  which takes finitely many values. As amended: when every required field is in the dict
  with a string value, changing the value of a single required field to another string
  changes the string that is hashed, so the signature changes unless SHA-256 collides on
  the two strings; in particular the separator keeps \<^verbatim>\<open>{"a":"1","b":"23"}\<close> and
  \<^verbatim>\<open>{"a":"12","b":"3"}\<close> apart: for every secret the hashed strings are \<^verbatim>\<open>1:23\<close> and
  \<^verbatim>\<open>12:3\<close> followed by the secret, and with the secret \<^verbatim>\<open>SecretKey01\<close> the two
  signatures differ. When a required field is missing, no signature is computed and the
  call raises \<^verbatim>\<open>KeyError\<close>, whatever the values of the fields that are present.
\<close>

theorem single_change_changes_signed_data:
  "(key \<in> set required_fields \<and> signed_data c data required_fields = Inr s \<and>
    map_of data key = Some (VStr v) \<and> v' \<noteq> v \<longrightarrow>
      (\<exists>s'. signed_data c (AList.update key (VStr v') data) required_fields = Inr s'
            \<and> s' \<noteq> s)) \<and>
   signed_data c [(''a'', VStr ''1''), (''b'', VStr ''23'')] [''a'', ''b'']
     = Inr (''1:23'' @ secret_key c) \<and>
   signed_data c [(''a'', VStr ''12''), (''b'', VStr ''3'')] [''a'', ''b'']
     = Inr (''12:3'' @ secret_key c) \<and>
   ''1:23'' @ secret_key c \<noteq> ''12:3'' @ secret_key c \<and>
   sign_digest example_client [(''a'', VStr ''1''), (''b'', VStr ''23'')] [''a'', ''b'']
     = Inr (VStr ''696d9c7329c92088030cfddb763accd88d0173864ebfcc1bb24e7b46e5ba6006'') \<and>
   sign_digest example_client [(''a'', VStr ''12''), (''b'', VStr ''3'')] [''a'', ''b'']
     = Inr (VStr ''6a715295e306660b00e4a1da2f6d427b47cb4417820d2c2e821b559af4b4d486'') \<and>
   (missing \<in> set required_fields \<and> map_of data missing = None \<and>
    map_of data key \<noteq> None \<longrightarrow>
      (\<exists>k. sign_digest c data required_fields = Inl (KeyError k) \<and>
           sign_digest c (AList.update key w data) required_fields = Inl (KeyError k)))"
proof (intro conjI impI)
  assume "key \<in> set required_fields \<and> signed_data c data required_fields = Inr s \<and>
    map_of data key = Some (VStr v) \<and> v' \<noteq> v"
  then show "\<exists>s'. signed_data c (AList.update key (VStr v') data) required_fields = Inr s'
      \<and> s' \<noteq> s"
    using signed_data_change_one by blast
next
  show "signed_data c [(''a'', VStr ''1''), (''b'', VStr ''23'')] [''a'', ''b'']
     = Inr (''1:23'' @ secret_key c)"
    by (simp add: signed_data_def)
next
  show "signed_data c [(''a'', VStr ''12''), (''b'', VStr ''3'')] [''a'', ''b'']
     = Inr (''12:3'' @ secret_key c)"
    by (simp add: signed_data_def)
next
  show "''1:23'' @ secret_key c \<noteq> ''12:3'' @ secret_key c"
    by simp
next
  show "sign_digest example_client [(''a'', VStr ''1''), (''b'', VStr ''23'')] [''a'', ''b'']
     = Inr (VStr ''696d9c7329c92088030cfddb763accd88d0173864ebfcc1bb24e7b46e5ba6006'')"
    by (simp add: sign_digest_def sign_def signed_data_def example_client_def digest_1_23)
next
  show "sign_digest example_client [(''a'', VStr ''12''), (''b'', VStr ''3'')] [''a'', ''b'']
     = Inr (VStr ''6a715295e306660b00e4a1da2f6d427b47cb4417820d2c2e821b559af4b4d486'')"
    by (simp add: sign_digest_def sign_def signed_data_def example_client_def digest_12_3)
next
  assume "missing \<in> set required_fields \<and> map_of data missing = None \<and>
    map_of data key \<noteq> None"
  then show "\<exists>k. sign_digest c data required_fields = Inl (KeyError k) \<and>
      sign_digest c (AList.update key w data) required_fields = Inl (KeyError k)"
    using sign_digest_missing_field by blast
qed

theorem single_change_changes_signed_data_witness:
  "signed_data example_client [(''a'', VStr ''1''), (''b'', VStr ''23'')] [''b'', ''a'']
     = Inr ''1:23SecretKey01'' \<and>
   (\<exists>s'. signed_data example_client
            (AList.update ''b'' (VStr ''24'') [(''a'', VStr ''1''), (''b'', VStr ''23'')])
            [''b'', ''a''] = Inr s'
        \<and> s' \<noteq> ''1:23SecretKey01'') \<and>
   (\<exists>k. sign_digest example_client [(''a'', VStr ''1'')] [''a'', ''c''] = Inl (KeyError k) \<and>
        sign_digest example_client (AList.update ''a'' (VStr ''2'') [(''a'', VStr ''1'')])
          [''a'', ''c''] = Inl (KeyError k))"
proof -
  have s: "signed_data example_client [(''a'', VStr ''1''), (''b'', VStr ''23'')] [''b'', ''a'']
     = Inr ''1:23SecretKey01''"
    by (simp add: signed_data_def example_client_def)
  then show ?thesis
    using
      single_change_changes_signed_data [where c = example_client
        and data = "[(''a'', VStr ''1''), (''b'', VStr ''23'')]"
        and required_fields = "[''b'', ''a'']" and key = "''b''" and v = "''23''"
        and v' = "''24''" and s = "''1:23SecretKey01''"]
      single_change_changes_signed_data [where c = example_client
        and data = "[(''a'', VStr ''1'')]"
        and required_fields = "[''a'', ''c'']" and key = "''a''" and missing = "''c''"
        and w = "VStr ''2''"]
    by simp
qed

text \<open>
  The claim fails at the dict \<^verbatim>\<open>{"a": "1"}\<close> with the required fields \<^verbatim>\<open>a\<close> and
  \<^verbatim>\<open>b\<close>: changing \<^verbatim>\<open>a\<close> to \<^verbatim>\<open>"12"\<close> changes nothing, the call raises
  \<^verbatim>\<open>KeyError('b')\<close> both times. It also fails between \<^verbatim>\<open>{"a": 1, "b": "23"}\<close> and
  \<^verbatim>\<open>{"a": 2, "b": "23"}\<close>, where both calls raise \<^verbatim>\<open>TypeError\<close> (the numbers of C1).
\<close>

theorem single_change_without_a_signature:
  "sign_digest example_client [(''a'', VStr ''1'')] [''a'', ''b''] = Inl (KeyError ''b'') \<and>
   sign_digest example_client (AList.update ''a'' (VStr ''12'') [(''a'', VStr ''1'')])
       [''a'', ''b''] = Inl (KeyError ''b'') \<and>
   sign_digest example_client [(''a'', VInt 1), (''b'', VStr ''23'')] [''a'', ''b'']
     = Inl TypeError \<and>
   sign_digest example_client
       (AList.update ''a'' (VInt 2) [(''a'', VInt 1), (''b'', VStr ''23'')]) [''a'', ''b'']
     = Inl TypeError"
  by (simp add: sign_digest_def sign_def signed_data_def)

text \<open>
  Why the amended statement is about the hashed string: the digest takes finitely many
  values, so some two different string values of one required field get the same
  signature, although no such pair is known.
\<close>

lemma some_single_change_keeps_the_digest:
  "\<not> (\<forall>c data required_fields key v v' digest.
        key \<in> set required_fields \<and> map_of data key = Some (VStr v) \<and> v' \<noteq> v \<and>
        sign_digest c data required_fields = Inr digest
        \<longrightarrow> sign_digest c (AList.update key (VStr v') data) required_fields \<noteq> Inr digest)"
proof
  assume claim: "\<forall>c data required_fields key v v' digest.
        key \<in> set required_fields \<and> map_of data key = Some (VStr v) \<and> v' \<noteq> v \<and>
        sign_digest c data required_fields = Inr digest
        \<longrightarrow> sign_digest c (AList.update key (VStr v') data) required_fields \<noteq> Inr digest"
  from digest_collision_on_strs obtain n m where nm: "n \<noteq> m"
    "hexdigest (sha256 (encode_utf8 (replicate n (CHR ''a''))))
       = hexdigest (sha256 (encode_utf8 (replicate m (CHR ''a''))))"
    by blast
  let ?x = "replicate n (CHR ''a'')" and ?y = "replicate m (CHR ''a'')"
  let ?c = "example_client\<lparr>secret_key := []\<rparr>"
  from nm(1) have xy: "?y \<noteq> ?x"
    by (metis length_replicate)
  have "sign_digest ?c [(''a'', VStr ?x)] [''a'']
      = Inr (VStr (hexdigest (sha256 (encode_utf8 ?x))))"
    by (simp add: sign_digest_def sign_def signed_data_def)
  moreover have "sign_digest ?c (AList.update ''a'' (VStr ?y) [(''a'', VStr ?x)]) [''a'']
      = Inr (VStr (hexdigest (sha256 (encode_utf8 ?x))))"
    by (simp add: sign_digest_def sign_def signed_data_def nm(2))
  ultimately show False
    using claim xy by (metis list.set_intros(1) map_of_Cons_code(2))
qed

text \<open>
  C10. The claim: \<^verbatim>\<open>check_callback\<close> changes the caller's dict on every path. It does
  not when the dict has no \<^verbatim>\<open>'sign'\<close> key: \<^verbatim>\<open>pop\<close> raises and the dict is as it
  was. As amended: when the dict has a \<^verbatim>\<open>'sign'\<close> entry, the entry is removed before
  the address is checked, so a call that raises \<^verbatim>\<open>IpError\<close> leaves the dict without
  it; and on every path on which the recomputation of the digest completes, the dict ends
  with the recomputed digest under \<^verbatim>\<open>'sign'\<close> in place of the one sent, every other
  entry unchanged, whatever the later checks decide. Without a \<^verbatim>\<open>'sign'\<close> entry the
  dict is unchanged.
\<close>

theorem check_callback_mutation:
  "(map_of request_data ''sign'' = None \<longrightarrow>
      snd (check_callback c request_data ip shop_amount shop_currency) = request_data) \<and>
   (map_of request_data ''sign'' = Some sent \<and> ip \<notin> set allowed_ip_address \<longrightarrow>
      check_callback c request_data ip shop_amount shop_currency
        = (Inl ip_exception, AList.delete ''sign'' request_data) \<and>
      map_of (snd (check_callback c request_data ip shop_amount shop_currency))
        = (map_of request_data)(''sign'' := None)) \<and>
   (map_of request_data ''sign'' = Some sent \<and> ip \<in> set allowed_ip_address \<and>
    recomputed_sign c request_data = Inr recomputed \<longrightarrow>
      snd (check_callback c request_data ip shop_amount shop_currency)
        = AList.update ''sign'' recomputed (AList.delete ''sign'' request_data) \<and>
      map_of (snd (check_callback c request_data ip shop_amount shop_currency))
        = (map_of request_data)(''sign'' \<mapsto> recomputed))"
proof (intro conjI impI; (elim conjE)?)
  assume "map_of request_data ''sign'' = None"
  then show "snd (check_callback c request_data ip shop_amount shop_currency) = request_data"
    by (simp add: check_callback_no_sign)
next
  assume a: "map_of request_data ''sign'' = Some sent" "ip \<notin> set allowed_ip_address"
  then show "check_callback c request_data ip shop_amount shop_currency
        = (Inl ip_exception, AList.delete ''sign'' request_data)"
    by (rule check_callback_ip)
  then show "map_of (snd (check_callback c request_data ip shop_amount shop_currency))
        = (map_of request_data)(''sign'' := None)"
    by (simp add: delete_conv')
next
  assume a: "map_of request_data ''sign'' = Some sent" "ip \<in> set allowed_ip_address"
    "recomputed_sign c request_data = Inr recomputed"
  from a(3) have "sign_digest c (AList.delete ''sign'' request_data)
      (callback_required_fields (AList.delete ''sign'' request_data)) = Inr recomputed"
    by (simp add: recomputed_sign_def)
  from check_callback_recomputed [OF a(1,2) this]
  show "snd (check_callback c request_data ip shop_amount shop_currency)
        = AList.update ''sign'' recomputed (AList.delete ''sign'' request_data)"
    by simp
  then show "map_of (snd (check_callback c request_data ip shop_amount shop_currency))
        = (map_of request_data)(''sign'' \<mapsto> recomputed)"
    by (simp add: update_conv' delete_conv')
qed

theorem check_callback_mutation_witness:
  "snd (check_callback example_client [(''status'', VStr ''success'')] ''87.98.145.206''
          (VStr ''10.00'') (VStr ''643'')) = [(''status'', VStr ''success'')] \<and>
   check_callback example_client example_notification ''10.0.0.1'' (VStr ''10.00'')
       (VStr ''643'')
     = (Inl ip_exception,
        [(''shop_order_id'', VStr ''1001''), (''status'', VStr ''success''),
         (''shop_amount'', VStr ''10.00''), (''description'', VStr []),
         (''shop_currency'', VStr ''643''), (''payway'', VNone)]) \<and>
   snd (check_callback example_client
          (AList.update ''sign'' (VStr ''00'') example_notification) ''87.98.145.206''
          (VStr ''10.00'') (VStr ''643''))
     = [(''shop_order_id'', VStr ''1001''), (''status'', VStr ''success''),
        (''shop_amount'', VStr ''10.00''), (''description'', VStr []),
        (''shop_currency'', VStr ''643''), (''payway'', VNone),
        (''sign'', VStr ''149433c1e6643e317184f8d2dc3ed41254aa92cd4f858c7b628d981bf5b9a896'')]"
proof -
  let ?D = "VStr ''149433c1e6643e317184f8d2dc3ed41254aa92cd4f858c7b628d981bf5b9a896''"
  let ?T = "AList.update ''sign'' (VStr ''00'') example_notification"
  have out: "''10.0.0.1'' \<notin> set allowed_ip_address"
    and inn: "''87.98.145.206'' \<in> set allowed_ip_address"
    by (simp_all add: allowed_ip_address_def)
  have n: "map_of example_notification ''sign'' = Some ?D"
    by (simp add: example_notification_def)
  have t: "map_of ?T ''sign'' = Some (VStr ''00'')"
    by (simp add: update_conv')
  have d: "AList.delete ''sign'' example_notification
      = [(''shop_order_id'', VStr ''1001''), (''status'', VStr ''success''),
         (''shop_amount'', VStr ''10.00''), (''description'', VStr []),
         (''shop_currency'', VStr ''643''), (''payway'', VNone)]"
    by (simp add: example_notification_def)
  have "snd (check_callback example_client [(''status'', VStr ''success'')] ''87.98.145.206''
          (VStr ''10.00'') (VStr ''643'')) = [(''status'', VStr ''success'')]"
    using check_callback_mutation [where c = example_client
        and request_data = "[(''status'', VStr ''success'')]"]
    by simp
  moreover have "check_callback example_client example_notification ''10.0.0.1''
       (VStr ''10.00'') (VStr ''643'')
     = (Inl ip_exception, AList.delete ''sign'' example_notification)"
    using check_callback_mutation [where c = example_client
        and request_data = example_notification and sent = ?D and ip = "''10.0.0.1''"]
      n out
    by simp
  moreover have "snd (check_callback example_client ?T ''87.98.145.206''
          (VStr ''10.00'') (VStr ''643''))
     = AList.update ''sign'' ?D (AList.delete ''sign'' ?T)"
    using check_callback_mutation [where c = example_client
        and request_data = ?T and sent = "VStr ''00''" and ip = "''87.98.145.206''"
        and recomputed = ?D]
      t inn tampered_recomputed
    by simp
  ultimately show ?thesis
    by (simp add: d delete_update_same)
qed

text \<open>
  The claim fails at a notification without \<^verbatim>\<open>'sign'\<close>: the call raises and the dict
  it leaves is the dict it was given.
\<close>

theorem check_callback_leaves_unsigned_dict_unchanged:
  "check_callback example_client [(''status'', VStr ''success'')] ''10.0.0.1''
       (VStr ''10.00'') (VStr ''643'')
     = (Inl (KeyError ''sign''), [(''status'', VStr ''success'')])"
  by (simp add: check_callback_def)

end
